theory Spec2Isabelle
  imports Complex_Main "HOL-Library.Sublist"
begin

section \<open>JavaScript numbers\<close>

text \<open>
  The program computes with JavaScript numbers. Finite values are modelled as exact
  reals (binary rounding error and overflow are outside the model; zero is unsigned).
  The only operations of the modelled code that leave the finite numbers are its
  divisions, so the results that flow out of a division are values of \<open>jsnum\<close>, with the
  IEEE rules for infinities and NaN written out.
\<close>

datatype jsnum = Fin real | PosInf | NegInf | NaN

definition inf_of_sign :: "real \<Rightarrow> jsnum" where
  "inf_of_sign s = (if 0 < s then PosInf else if s < 0 then NegInf else NaN)"

fun js_neg :: "jsnum \<Rightarrow> jsnum" where
  "js_neg (Fin a) = Fin (- a)"
| "js_neg PosInf = NegInf"
| "js_neg NegInf = PosInf"
| "js_neg NaN = NaN"

fun js_plus :: "jsnum \<Rightarrow> jsnum \<Rightarrow> jsnum" where
  "js_plus NaN y = NaN"
| "js_plus x NaN = NaN"
| "js_plus (Fin a) (Fin b) = Fin (a + b)"
| "js_plus (Fin a) y = y"
| "js_plus x (Fin b) = x"
| "js_plus PosInf PosInf = PosInf"
| "js_plus NegInf NegInf = NegInf"
| "js_plus PosInf NegInf = NaN"
| "js_plus NegInf PosInf = NaN"

definition js_minus :: "jsnum \<Rightarrow> jsnum \<Rightarrow> jsnum" where
  "js_minus x y = js_plus x (js_neg y)"

fun js_times :: "jsnum \<Rightarrow> jsnum \<Rightarrow> jsnum" where
  "js_times NaN y = NaN"
| "js_times x NaN = NaN"
| "js_times (Fin a) (Fin b) = Fin (a * b)"
| "js_times (Fin a) PosInf = inf_of_sign a"
| "js_times (Fin a) NegInf = inf_of_sign (- a)"
| "js_times PosInf (Fin b) = inf_of_sign b"
| "js_times NegInf (Fin b) = inf_of_sign (- b)"
| "js_times PosInf PosInf = PosInf"
| "js_times NegInf NegInf = PosInf"
| "js_times PosInf NegInf = NegInf"
| "js_times NegInf PosInf = NegInf"

fun js_divide :: "jsnum \<Rightarrow> jsnum \<Rightarrow> jsnum" where
  "js_divide NaN y = NaN"
| "js_divide x NaN = NaN"
| "js_divide (Fin a) (Fin b) = (if b = 0 then inf_of_sign a else Fin (a / b))"
| "js_divide (Fin a) y = Fin 0"
| "js_divide PosInf (Fin b) = (if b < 0 then NegInf else PosInf)"
| "js_divide NegInf (Fin b) = (if b < 0 then PosInf else NegInf)"
| "js_divide x y = NaN"

text \<open>\<open>Math.min\<close> and \<open>Math.max\<close>: NaN as soon as one argument is NaN.\<close>

fun js_min :: "jsnum \<Rightarrow> jsnum \<Rightarrow> jsnum" where
  "js_min NaN y = NaN"
| "js_min x NaN = NaN"
| "js_min NegInf y = NegInf"
| "js_min x NegInf = NegInf"
| "js_min PosInf y = y"
| "js_min x PosInf = x"
| "js_min (Fin a) (Fin b) = Fin (min a b)"

fun js_max :: "jsnum \<Rightarrow> jsnum \<Rightarrow> jsnum" where
  "js_max NaN y = NaN"
| "js_max x NaN = NaN"
| "js_max PosInf y = PosInf"
| "js_max x PosInf = PosInf"
| "js_max NegInf y = y"
| "js_max x NegInf = x"
| "js_max (Fin a) (Fin b) = Fin (max a b)"

text \<open>\<open>Math.round\<close> rounds to the nearest integer, ties towards plus infinity.\<close>

definition math_round :: "real \<Rightarrow> real" where
  "math_round x = of_int \<lfloor>x + 1 / 2\<rfloor>"

fun js_round :: "jsnum \<Rightarrow> jsnum" where
  "js_round (Fin a) = Fin (math_round a)"
| "js_round x = x"

definition math_floor :: "real \<Rightarrow> real" where
  "math_floor x = of_int \<lfloor>x\<rfloor>"

section \<open>Portfolio and trade types\<close>

datatype AssetType = LOAN | SECURITY

datatype SecurityType = BOND | STOCK | ETF | MBS | ABS | TREASURY

text \<open>
  An asset as the executor reads it. \<open>securityType\<close> is the field the code reaches
  through \<open>asset as any\<close>: undefined (\<open>None\<close>) on a loan. \<open>weight\<close> is recomputed by
  a division at every cycle.
\<close>

record Asset =
  asset_id :: string
  asset_name :: string
  asset_type :: AssetType
  securityType :: "SecurityType option"
  currentPrice :: real
  asset_quantity :: real
  marketValue :: real
  weight :: jsnum

datatype TradeAction = BUY | SELL

datatype OrderType = MARKET | LIMIT | SMART

record TradeOrder =
  order_asset :: Asset
  order_action :: TradeAction
  order_quantity :: real
  orderType :: OrderType
  limitPrice :: "real option"
  slippageTolerance :: real

datatype TradeStatus = TRADE_PENDING | FILLED | PARTIAL | TRADE_CANCELLED | TRADE_FAILED

record TradeExecution =
  trade_id :: string
  trade_asset :: Asset
  trade_action :: TradeAction
  trade_quantity :: real
  trade_price :: jsnum
  trade_timestamp :: int
  trade_status :: TradeStatus

text \<open>
  What one call of \<open>executeTrade\<close> takes from its environment: the trade id it builds
  from the clock and a random string, the clock reading of the result, and the three
  \<open>Math.random()\<close> draws (each in the interval from 0 inclusive to 1 exclusive) of the
  slippage, of the success test and of the fill rate.
\<close>

record TradeEnv =
  env_tradeId :: string
  env_tradeTime :: int
  rnd_slippage :: real
  rnd_success :: real
  rnd_fill :: real

section \<open>TradeExecutor\<close>

definition getEstimatedDailyVolume :: "Asset \<Rightarrow> real" where
  "getEstimatedDailyVolume asset =
     (let baseVolume = marketValue asset * (1 / 10) in
      case asset_type asset of
        SECURITY \<Rightarrow>
          (case securityType asset of
             Some TREASURY \<Rightarrow> baseVolume * 10
           | Some STOCK \<Rightarrow> baseVolume * 5
           | Some BOND \<Rightarrow> baseVolume * 2
           | Some MBS \<Rightarrow> baseVolume * (1 / 2)
           | Some ABS \<Rightarrow> baseVolume * (1 / 2)
           | _ \<Rightarrow> baseVolume)
      | LOAN \<Rightarrow> baseVolume * (1 / 10))"

definition calculateMarketImpact :: "TradeOrder \<Rightarrow> jsnum" where
  "calculateMarketImpact order =
     (let estimatedDailyVolume = getEstimatedDailyVolume (order_asset order);
          tradeSizeRatio =
            js_divide (Fin (order_quantity order * currentPrice (order_asset order)))
              (Fin estimatedDailyVolume);
          impact = js_times tradeSizeRatio (Fin (1 / 1000));
          impact' =
            (case asset_type (order_asset order) of
               LOAN \<Rightarrow> js_times impact (Fin 3)
             | SECURITY \<Rightarrow>
                 (case securityType (order_asset order) of
                    Some TREASURY \<Rightarrow> js_times impact (Fin (3 / 10))
                  | Some MBS \<Rightarrow> js_times impact (Fin 2)
                  | Some ABS \<Rightarrow> js_times impact (Fin 2)
                  | _ \<Rightarrow> impact))
      in js_min impact' (Fin (5 / 100)))"

definition calculateSlippage :: "TradeOrder \<Rightarrow> real \<Rightarrow> real" where
  "calculateSlippage order rnd =
     (let baseSlippage = 1 / 1000;
          baseSlippage' =
            (case orderType order of
               MARKET \<Rightarrow> baseSlippage * (15 / 10)
             | SMART \<Rightarrow> baseSlippage * (7 / 10)
             | LIMIT \<Rightarrow> baseSlippage);
          volatilityMultiplier = 8 / 10 + rnd * (4 / 10)
      in min (baseSlippage' * volatilityMultiplier) (slippageTolerance order))"

text \<open>
  \<open>order.limitPrice\<close> is tested for truthiness: an absent limit price and a limit
  price of 0 both leave the price unclamped.
\<close>

definition calculateExecutionPrice :: "TradeOrder \<Rightarrow> jsnum \<Rightarrow> real \<Rightarrow> jsnum" where
  "calculateExecutionPrice order marketImpact slippage =
     (let executionPrice = Fin (currentPrice (order_asset order));
          totalImpact = js_plus marketImpact (Fin slippage);
          executionPrice' =
            (if order_action order = BUY
             then js_times executionPrice (js_plus (Fin 1) totalImpact)
             else js_times executionPrice (js_minus (Fin 1) totalImpact));
          executionPrice'' =
            (case limitPrice order of
               Some lp \<Rightarrow>
                 (if orderType order = LIMIT \<and> lp \<noteq> 0
                  then (if order_action order = BUY
                        then js_min executionPrice' (Fin lp)
                        else js_max executionPrice' (Fin lp))
                  else executionPrice')
             | None \<Rightarrow> executionPrice')
      in js_divide (js_round (js_times executionPrice'' (Fin 10000))) (Fin 10000))"

definition calculateExecutedQuantity :: "TradeOrder \<Rightarrow> real \<Rightarrow> real" where
  "calculateExecutedQuantity order rnd =
     (let orderValue = order_quantity order * currentPrice (order_asset order);
          estimatedDailyVolume = getEstimatedDailyVolume (order_asset order)
      in if orderValue > estimatedDailyVolume * (1 / 10)
         then (let fillRate = 6 / 10 + rnd * (4 / 10)
               in math_floor (order_quantity order * fillRate))
         else order_quantity order)"

definition failedTrade :: "TradeOrder \<Rightarrow> TradeEnv \<Rightarrow> TradeExecution" where
  "failedTrade order env =
     \<lparr> trade_id = env_tradeId env, trade_asset = order_asset order,
       trade_action = order_action order, trade_quantity = order_quantity order,
       trade_price = Fin 0, trade_timestamp = env_tradeTime env,
       trade_status = TRADE_FAILED \<rparr>"

definition simulateTradeExecution :: "TradeOrder \<Rightarrow> TradeEnv \<Rightarrow> TradeExecution" where
  "simulateTradeExecution order env =
     (let marketImpact = calculateMarketImpact order;
          slippage = calculateSlippage order (rnd_slippage env);
          executionPrice = calculateExecutionPrice order marketImpact slippage;
          executionSuccess = (rnd_success env > 5 / 100)
      in if \<not> executionSuccess then failedTrade order env
         else (let executedQuantity = calculateExecutedQuantity order (rnd_fill env);
                   status = (if executedQuantity = order_quantity order then FILLED else PARTIAL)
               in \<lparr> trade_id = env_tradeId env, trade_asset = order_asset order,
                    trade_action = order_action order, trade_quantity = executedQuantity,
                    trade_price = executionPrice, trade_timestamp = env_tradeTime env,
                    trade_status = status \<rparr>))"

text \<open>
  \<open>executeTrade\<close>: in mock mode the simulation; otherwise \<open>executeRealTrade\<close>, which
  always throws, and the \<open>catch\<close> returns the failed-trade record.
\<close>

definition executeTrade :: "bool \<Rightarrow> TradeOrder \<Rightarrow> TradeEnv \<Rightarrow> TradeExecution" where
  "executeTrade mockMode order env =
     (if mockMode then simulateTradeExecution order env else failedTrade order env)"

section \<open>Recommendations, decisions and agent state\<close>

text \<open>
  The levels \<open>LOW | MEDIUM | HIGH | CRITICAL\<close> are the type of a recommendation's
  priority and of an alert's severity.
\<close>

datatype Level = LOW | MEDIUM | HIGH | CRITICAL

datatype RecommendationType =
    REBALANCE | REC_SELL | REC_BUY | HEDGE | REDUCE_CONCENTRATION | IMPROVE_DIVERSIFICATION
  | CREDIT_RISK_MITIGATION | DURATION_ADJUSTMENT | YIELD_ENHANCEMENT

datatype ItemAction = ITEM_SELL | ITEM_BUY | REDUCE | INCREASE | ITEM_HEDGE

record ActionItem =
  item_asset :: "Asset option"
  item_action :: ItemAction
  item_quantity :: "real option"
  item_percentage :: "real option"
  rationale :: string

record Impact =
  riskReduction :: "real option"
  yieldImprovement :: "real option"
  diversificationImprovement :: "real option"
  estimatedCost :: "real option"
  timeframe :: string

record Recommendation =
  rec_id :: string
  rec_type :: RecommendationType
  priority :: Level
  title :: string
  actionItems :: "ActionItem list"
  impact :: Impact

datatype AutonomyLevel = FULL_AUTO | SEMI_AUTO | ADVISORY_ONLY

record RiskLimits =
  maxSingleAssetWeight :: real
  maxDailyVaR :: real

text \<open>
  \<open>startHour\<close> and \<open>endHour\<close> stand for \<open>parseInt(start.split(':')[0])\<close> and
  \<open>parseInt(end.split(':')[0])\<close>, the only use the agent makes of the two strings;
  \<open>None\<close> is a NaN result, which fails every comparison.
\<close>

record TradingHours =
  startHour :: "int option"
  endHour :: "int option"
  excludeWeekends :: bool

record TradingLimits =
  maxDailyTradeVolume :: real
  maxSingleTradeSize :: real
  maxTradesPerHour :: real
  tradingHours :: TradingHours

record ExecutionSettings =
  settings_slippageTolerance :: real
  settings_orderType :: OrderType
  confirmationRequired :: bool
  simulationMode :: bool

record AgentConfig =
  config_id :: string
  enabled :: bool
  riskLimits :: RiskLimits
  tradingLimits :: TradingLimits
  autonomyLevel :: AutonomyLevel
  executionSettings :: ExecutionSettings

datatype DecisionType =
    AUTO_REBALANCE | RISK_MITIGATION | YIELD_OPTIMIZATION | EMERGENCY_HEDGE
  | LIQUIDITY_MANAGEMENT | OPPORTUNISTIC_TRADE

datatype DecisionStatus =
  PENDING | APPROVED | EXECUTING | COMPLETED | REJECTED | FAILED | CANCELLED

record ExpectedOutcome =
  exp_riskReduction :: "real option"
  exp_yieldImprovement :: "real option"
  exp_liquidityImprovement :: "real option"
  costEstimate :: real
  exp_timeframe :: string

record ExecutionDetails =
  trades :: "TradeExecution list"
  totalCost :: jsnum
  executionTime :: int
  slippage :: jsnum
  success :: bool
  errors :: "string list option"

record AgentDecision =
  decision_id :: string
  decision_timestamp :: int
  decisionType :: DecisionType
  recommendation :: Recommendation
  reasoning :: string
  confidence :: real
  riskAssessment :: string
  expectedOutcome :: ExpectedOutcome
  status :: DecisionStatus
  executionDetails :: "ExecutionDetails option"

datatype AlertType =
    RISK_LIMIT_BREACH | TRADING_LIMIT_EXCEEDED | MARKET_ANOMALY | EXECUTION_FAILURE
  | DATA_QUALITY_ISSUE | SYSTEM_ERROR

text \<open>
  An alert's message is a template string; the messages that interpolate a formatted
  number keep the number instead of its digits.
\<close>

datatype Message =
    Literal string
  | ExecutionCycleFailed string
  | DailyVaRExceeded real real
  | SingleAssetConcentrationExceeded real

record Alert =
  alert_id :: string
  severity :: Level
  alert_type :: AlertType
  message :: Message
  alert_timestamp :: int
  acknowledged :: bool

record AgentPerformance =
  totalReturn :: real
  sharpeRatio :: real
  maxDrawdown :: real
  winRate :: real
  avgDecisionTime :: real
  riskAdjustedReturn :: real
  benchmarkOutperformance :: real

record Portfolio =
  portfolio_id :: string
  assets :: "Asset list"
  totalValue :: real

datatype AgentStatus = ACTIVE | PAUSED | STOPPED | ERROR

record AgentState =
  state_id :: string
  agent_status :: AgentStatus
  lastDecision :: int
  totalDecisions :: nat
  successRate :: real
  currentPortfolio :: Portfolio
  watchlist :: "Asset list"
  alerts :: "Alert list"
  performance :: AgentPerformance

datatype Volatility = VOL_HIGH | VOL_MEDIUM | VOL_LOW

record MarketData =
  prices :: "string \<rightharpoonup> real"
  sentiment_volatility :: Volatility

text \<open>
  The agent object. Dates are milliseconds since the epoch. \<open>timers\<close> is the part of
  the runtime's timer table this agent has filled: the handles \<open>setInterval\<close> returned
  to it and \<open>clearInterval\<close> has not yet cancelled; \<open>nextHandle\<close> is the next fresh
  handle. Every operation below runs to its end before the next starts.
\<close>

record PortfolioAgent =
  config :: AgentConfig
  state :: AgentState
  decisionHistory :: "AgentDecision list"
  intervalId :: "nat option"
  timers :: "nat list"
  nextHandle :: nat

section \<open>Strings and local time\<close>

fun decimal_nat :: "nat \<Rightarrow> string" where
  "decimal_nat n =
     (if n < 10 then [char_of (48 + n)]
      else decimal_nat (n div 10) @ [char_of (48 + n mod 10)])"

declare decimal_nat.simps [simp del]

definition decimal :: "int \<Rightarrow> string" where
  "decimal i = (if i < 0 then CHR ''-'' # decimal_nat (nat (- i)) else decimal_nat (nat i))"

fun joinWith :: "string \<Rightarrow> string list \<Rightarrow> string" where
  "joinWith sep [] = []"
| "joinWith sep [x] = x"
| "joinWith sep (x # y # ys) = x @ sep @ joinWith sep (y # ys)"

text \<open>
  Local time is read off the epoch milliseconds through a fixed offset \<open>tz\<close> (the
  runtime's time zone, without daylight saving). \<open>toDateString\<close> is the number of the
  local calendar day: two dates print the same date string exactly when they fall on
  the same local day.
\<close>

definition toDateString :: "int \<Rightarrow> int \<Rightarrow> int" where
  "toDateString tz t = (t + tz) div 86400000"

definition getHours :: "int \<Rightarrow> int \<Rightarrow> int" where
  "getHours tz t = ((t + tz) mod 86400000) div 3600000"

definition getDay :: "int \<Rightarrow> int \<Rightarrow> int" where
  "getDay tz t = ((t + tz) div 86400000 + 4) mod 7"

section \<open>PortfolioAgent\<close>

subsection \<open>Alerts and life cycle\<close>

text \<open>
  \<open>addAlert\<close> pushes the alert and, once the log holds more than 100 entries, keeps
  the last 50 (\<open>slice(-50)\<close>).
\<close>

definition addAlert :: "Level \<Rightarrow> AlertType \<Rightarrow> Message \<Rightarrow> int \<Rightarrow> PortfolioAgent \<Rightarrow> PortfolioAgent" where
  "addAlert sev ty msg now a =
     (let pushed = alerts (state a) @
            [\<lparr> alert_id = ''alert-'' @ decimal now, severity = sev, alert_type = ty,
               message = msg, alert_timestamp = now, acknowledged = False \<rparr>];
          kept = (if length pushed > 100 then drop (length pushed - 50) pushed else pushed)
      in a\<lparr> state := (state a)\<lparr> alerts := kept \<rparr> \<rparr>)"

definition newAgent :: "AgentConfig \<Rightarrow> Portfolio \<Rightarrow> int \<Rightarrow> PortfolioAgent" where
  "newAgent cfg portfolio now =
     \<lparr> config = cfg,
       state = \<lparr> state_id = config_id cfg, agent_status = STOPPED, lastDecision = now,
                 totalDecisions = 0, successRate = 0, currentPortfolio = portfolio,
                 watchlist = [], alerts = [],
                 performance = \<lparr> totalReturn = 0, sharpeRatio = 0, maxDrawdown = 0,
                   winRate = 0, avgDecisionTime = 0, riskAdjustedReturn = 0,
                   benchmarkOutperformance = 0 \<rparr> \<rparr>,
       decisionHistory = [], intervalId = None, timers = [], nextHandle = 0 \<rparr>"

text \<open>
  \<open>start\<close> overwrites \<open>intervalId\<close> with the handle of a new 60 second interval; an
  interval whose handle is overwritten stays in the timer table.
\<close>

definition start :: "int \<Rightarrow> PortfolioAgent \<Rightarrow> PortfolioAgent" where
  "start now a =
     (if \<not> enabled (config a)
      then addAlert HIGH SYSTEM_ERROR (Literal ''Cannot start agent: configuration disabled'') now a
      else (let a1 = a\<lparr> state := (state a)\<lparr> agent_status := ACTIVE \<rparr> \<rparr>;
                a2 = addAlert LOW SYSTEM_ERROR (Literal ''Portfolio Agent started'') now a1
            in a2\<lparr> intervalId := Some (nextHandle a2),
                   timers := timers a2 @ [nextHandle a2],
                   nextHandle := Suc (nextHandle a2) \<rparr>))"

definition stop :: "int \<Rightarrow> PortfolioAgent \<Rightarrow> PortfolioAgent" where
  "stop now a =
     (let a1 = a\<lparr> state := (state a)\<lparr> agent_status := STOPPED \<rparr> \<rparr>;
          a2 = (case intervalId a1 of
                  Some h \<Rightarrow> a1\<lparr> timers := removeAll h (timers a1), intervalId := None \<rparr>
                | None \<Rightarrow> a1)
      in addAlert LOW SYSTEM_ERROR (Literal ''Portfolio Agent stopped'') now a2)"

definition pause :: "int \<Rightarrow> PortfolioAgent \<Rightarrow> PortfolioAgent" where
  "pause now a =
     addAlert LOW SYSTEM_ERROR (Literal ''Portfolio Agent paused'') now
       (a\<lparr> state := (state a)\<lparr> agent_status := PAUSED \<rparr> \<rparr>)"

text \<open>\<open>getState\<close> and \<open>getDecisionHistory\<close> on values: the copies they return.\<close>

definition getState :: "PortfolioAgent \<Rightarrow> AgentState" where
  "getState a = state a"

definition getDecisionHistory :: "PortfolioAgent \<Rightarrow> AgentDecision list" where
  "getDecisionHistory a = decisionHistory a"

text \<open>
  \<open>updateConfig\<close> spreads a partial configuration over the current one: a field the
  patch holds replaces the field of the configuration.
\<close>

record ConfigPatch =
  patch_id :: "string option"
  patch_enabled :: "bool option"
  patch_riskLimits :: "RiskLimits option"
  patch_tradingLimits :: "TradingLimits option"
  patch_autonomyLevel :: "AutonomyLevel option"
  patch_executionSettings :: "ExecutionSettings option"

definition orElse :: "'a option \<Rightarrow> 'a \<Rightarrow> 'a" where
  "orElse x d = (case x of Some v \<Rightarrow> v | None \<Rightarrow> d)"

definition updateConfig :: "ConfigPatch \<Rightarrow> PortfolioAgent \<Rightarrow> PortfolioAgent" where
  "updateConfig newConfig a =
     a\<lparr> config :=
         \<lparr> config_id = orElse (patch_id newConfig) (config_id (config a)),
           enabled = orElse (patch_enabled newConfig) (enabled (config a)),
           riskLimits = orElse (patch_riskLimits newConfig) (riskLimits (config a)),
           tradingLimits = orElse (patch_tradingLimits newConfig) (tradingLimits (config a)),
           autonomyLevel = orElse (patch_autonomyLevel newConfig) (autonomyLevel (config a)),
           executionSettings =
             orElse (patch_executionSettings newConfig) (executionSettings (config a)) \<rparr> \<rparr>"

subsection \<open>Building a decision\<close>

text \<open>A number is truthy when it is present and not 0.\<close>

definition truthy :: "real option \<Rightarrow> bool" where
  "truthy x = (case x of Some v \<Rightarrow> v \<noteq> 0 | None \<Rightarrow> False)"

definition calculateConfidence :: "Recommendation \<Rightarrow> real" where
  "calculateConfidence r =
     (let baseConfidence =
            (if priority r = CRITICAL then 9 / 10
             else if priority r = HIGH then 8 / 10
             else if priority r = MEDIUM then 7 / 10
             else 6 / 10);
          baseConfidence' =
            (if truthy (riskReduction (impact r)) \<and> orElse (riskReduction (impact r)) 0 > 2 / 10
             then baseConfidence + 1 / 10 else baseConfidence)
      in min baseConfidence' 1)"

definition assessDecisionRisk :: "PortfolioAgent \<Rightarrow> Recommendation \<Rightarrow> string" where
  "assessDecisionRisk a r =
     (let riskFactors =
            (if truthy (estimatedCost (impact r)) \<and>
                orElse (estimatedCost (impact r)) 0 > totalValue (currentPortfolio (state a)) * (2 / 100)
             then [''High transaction costs''] else []) @
            (if rec_type r = REC_SELL \<or> rec_type r = REDUCE_CONCENTRATION
             then [''Liquidity risk''] else []) @
            (if priority r = LOW then [''Low priority action''] else [])
      in if length riskFactors > 0 then joinWith '', '' riskFactors else ''Low risk'')"

definition calculateExpectedOutcome :: "PortfolioAgent \<Rightarrow> Recommendation \<Rightarrow> ExpectedOutcome" where
  "calculateExpectedOutcome a r =
     \<lparr> exp_riskReduction = riskReduction (impact r),
       exp_yieldImprovement = yieldImprovement (impact r),
       exp_liquidityImprovement = diversificationImprovement (impact r),
       costEstimate =
         (if truthy (estimatedCost (impact r)) then orElse (estimatedCost (impact r)) 0
          else totalValue (currentPortfolio (state a)) * (1 / 1000)),
       exp_timeframe = (if timeframe (impact r) \<noteq> [] then timeframe (impact r) else ''1-2 days'') \<rparr>"

definition mapRecommendationToDecisionType :: "RecommendationType \<Rightarrow> DecisionType" where
  "mapRecommendationToDecisionType ty =
     (case ty of
        REBALANCE \<Rightarrow> AUTO_REBALANCE
      | CREDIT_RISK_MITIGATION \<Rightarrow> RISK_MITIGATION
      | YIELD_ENHANCEMENT \<Rightarrow> YIELD_OPTIMIZATION
      | HEDGE \<Rightarrow> EMERGENCY_HEDGE
      | _ \<Rightarrow> OPPORTUNISTIC_TRADE)"

subsection \<open>The autonomy policy\<close>

definition shouldAutoExecute :: "AgentConfig \<Rightarrow> AgentDecision \<Rightarrow> bool" where
  "shouldAutoExecute cfg decision =
     (if autonomyLevel cfg = ADVISORY_ONLY then False
      else if simulationMode (executionSettings cfg) then False
      else if confidence decision < 7 / 10 then False
      else if decisionType decision = EMERGENCY_HEDGE \<or>
              (priority (recommendation decision) = CRITICAL \<and> confidence decision > 8 / 10)
           then autonomyLevel cfg = FULL_AUTO
      else if priority (recommendation decision) = HIGH \<and> confidence decision > 85 / 100
           then autonomyLevel cfg = FULL_AUTO
      else autonomyLevel cfg = FULL_AUTO \<and>
           priority (recommendation decision) \<noteq> LOW \<and>
           confidence decision > 9 / 10)"

subsection \<open>Executing a recommendation\<close>

definition calculateTradeQuantity :: "ActionItem \<Rightarrow> real" where
  "calculateTradeQuantity actionItem =
     (if truthy (item_quantity actionItem) then orElse (item_quantity actionItem) 0
      else (case item_asset actionItem of
              Some asset \<Rightarrow>
                (if truthy (item_percentage actionItem)
                 then asset_quantity asset * orElse (item_percentage actionItem) 0
                 else 0)
            | None \<Rightarrow> 0))"

text \<open>
  What one call of \<open>executeDecision\<close> takes from its environment: the clock readings
  of the decision's id and timestamp, the text the reasoning engine returns, the
  clock readings around the trades, the environment of the n-th trade it submits, and
  the clock reading stored as the last-decision time.
\<close>

record DecisionEnv =
  env_idTime :: int
  env_timestamp :: int
  env_reasoning :: string
  env_execStart :: int
  env_execEnd :: int
  env_trade :: "nat \<Rightarrow> TradeEnv"
  env_recorded :: int

text \<open>
  The loop of \<open>executeRecommendation\<close> over the action items, with the trades, the
  total cost and the errors collected so far. The agent's executor is built with its
  default, mock mode. The order carries no limit price.
\<close>

fun executeItems ::
  "AgentConfig \<Rightarrow> (nat \<Rightarrow> TradeEnv) \<Rightarrow> ActionItem list \<Rightarrow>
   TradeExecution list \<times> jsnum \<times> string list \<Rightarrow> TradeExecution list \<times> jsnum \<times> string list" where
  "executeItems cfg tenv [] acc = acc"
| "executeItems cfg tenv (actionItem # rest) (trs, cost, errs) =
     (case item_asset actionItem of
        None \<Rightarrow> executeItems cfg tenv rest (trs, cost, errs)
      | Some asset \<Rightarrow>
          (let trade = executeTrade True
                 \<lparr> order_asset = asset,
                   order_action =
                     (if item_action actionItem = ITEM_BUY \<or> item_action actionItem = INCREASE
                      then BUY else SELL),
                   order_quantity = calculateTradeQuantity actionItem,
                   orderType = settings_orderType (executionSettings cfg),
                   limitPrice = None,
                   slippageTolerance = settings_slippageTolerance (executionSettings cfg) \<rparr>
                 (tenv (length trs));
               cost' = js_plus cost (js_times (trade_price trade) (Fin (trade_quantity trade)));
               errs' = (if trade_status trade = TRADE_FAILED
                        then errs @ [''Failed to execute trade for '' @ asset_name asset]
                        else errs)
           in executeItems cfg tenv rest (trs @ [trade], cost', errs')))"

text \<open>
  \<open>totalSlippage\<close> is never added to, so the reported slippage is 0 divided by the
  number of trades. No statement inside the \<open>try\<close> throws, so its \<open>catch\<close> has no
  branch here; \<open>updatePortfolioAfterTrades\<close> has an empty body.
\<close>

definition executeRecommendation :: "AgentConfig \<Rightarrow> Recommendation \<Rightarrow> DecisionEnv \<Rightarrow> ExecutionDetails" where
  "executeRecommendation cfg r env =
     (case executeItems cfg (env_trade env) (actionItems r) ([], Fin 0, []) of
        (trs, cost, errs) \<Rightarrow>
          \<lparr> trades = trs, totalCost = cost,
            executionTime = env_execEnd env - env_execStart env,
            slippage = js_divide (Fin 0) (Fin (real (length trs))),
            success = (length errs = 0),
            errors = (if length errs > 0 then Some errs else None) \<rparr>)"

definition executeDecision ::
  "Recommendation \<Rightarrow> DecisionEnv \<Rightarrow> PortfolioAgent \<Rightarrow> AgentDecision \<times> PortfolioAgent" where
  "executeDecision r env a =
     (let decision =
            \<lparr> decision_id = ''decision-'' @ decimal (env_idTime env),
              decision_timestamp = env_timestamp env,
              decisionType = mapRecommendationToDecisionType (rec_type r),
              recommendation = r,
              reasoning = env_reasoning env,
              confidence = calculateConfidence r,
              riskAssessment = assessDecisionRisk a r,
              expectedOutcome = calculateExpectedOutcome a r,
              status = PENDING,
              executionDetails = None \<rparr>;
          decision' =
            (if shouldAutoExecute (config a) decision
             then (let details = executeRecommendation (config a) r env
                   in decision\<lparr> executionDetails := Some details,
                                status := (if success details then COMPLETED else FAILED) \<rparr>)
             else decision)
      in (decision',
          a\<lparr> decisionHistory := decisionHistory a @ [decision'],
             state := (state a)\<lparr> totalDecisions := Suc (totalDecisions (state a)),
                                  lastDecision := env_recorded env \<rparr> \<rparr>))"

subsection \<open>The pre-execution gate\<close>

definition isWithinTradingHours :: "int \<Rightarrow> int \<Rightarrow> PortfolioAgent \<Rightarrow> bool" where
  "isWithinTradingHours tz now a =
     (let currentHour = getHours tz now;
          hours = tradingHours (tradingLimits (config a))
      in if excludeWeekends hours \<and> (getDay tz now = 0 \<or> getDay tz now = 6) then False
         else (case (startHour hours, endHour hours) of
                 (Some s, Some e) \<Rightarrow> currentHour \<ge> s \<and> currentHour < e
               | _ \<Rightarrow> False))"

definition tradesOf :: "AgentDecision \<Rightarrow> TradeExecution list" where
  "tradesOf d = (case executionDetails d of Some details \<Rightarrow> trades details | None \<Rightarrow> [])"

definition getTodayTrades :: "int \<Rightarrow> int \<Rightarrow> PortfolioAgent \<Rightarrow> TradeExecution list" where
  "getTodayTrades tz now a =
     concat (map tradesOf
       (filter (\<lambda>d. toDateString tz (decision_timestamp d) = toDateString tz now)
          (decisionHistory a)))"

definition getHourlyTrades :: "int \<Rightarrow> PortfolioAgent \<Rightarrow> TradeExecution list" where
  "getHourlyTrades now a =
     concat (map tradesOf
       (filter (\<lambda>d. decision_timestamp d > now - 60 * 60 * 1000) (decisionHistory a)))"

definition isWithinTradingLimits :: "int \<Rightarrow> int \<Rightarrow> PortfolioAgent \<Rightarrow> bool" where
  "isWithinTradingLimits tz now a =
     (let todayTrades = getTodayTrades tz now a;
          hourlyTrades = getHourlyTrades now a
      in real (length todayTrades) < maxTradesPerHour (tradingLimits (config a)) * 24 \<and>
         real (length hourlyTrades) < maxTradesPerHour (tradingLimits (config a)))"

definition passesRiskChecks :: "Recommendation \<Rightarrow> bool" where
  "passesRiskChecks r = True"

definition passesMarketConditionChecks :: "MarketData \<Rightarrow> bool" where
  "passesMarketConditionChecks marketData =
     (if sentiment_volatility marketData = VOL_HIGH then False else True)"

definition meetsExecutionCriteria ::
  "int \<Rightarrow> int \<Rightarrow> Recommendation \<Rightarrow> MarketData \<Rightarrow> PortfolioAgent \<Rightarrow> bool" where
  "meetsExecutionCriteria tz now r marketData a =
     (if \<not> isWithinTradingHours tz now a then False
      else if \<not> isWithinTradingLimits tz now a then False
      else if \<not> passesRiskChecks r then False
      else if \<not> passesMarketConditionChecks marketData then False
      else True)"

subsection \<open>The execution cycle\<close>

text \<open>
  The analyzer and the recommendation engine are collaborators of the agent: the
  cycle takes their result on a portfolio as given. \<open>Inl\<close> is a call that throws, with
  the message of the error.
\<close>

record Analysis =
  valueAtRisk :: real
  singleAssetMax :: real
  recommendations :: "Recommendation list"

record CycleEnv =
  cyc_marketData :: "string + MarketData"
  cyc_analyze :: "Portfolio \<Rightarrow> string + Analysis"
  cyc_gateTime :: "nat \<Rightarrow> int"
  cyc_decisionEnv :: "nat \<Rightarrow> DecisionEnv"
  cyc_alertTime :: int
  cyc_hedgeIdTime :: int
  cyc_hedgeEnv :: DecisionEnv

text \<open>
  \<open>cyc_gateTime\<close> and \<open>cyc_decisionEnv\<close> give the clock reading of the gate and the
  environment of \<open>executeDecision\<close> for the n-th candidate; the alerts of one cycle
  share the clock reading \<open>cyc_alertTime\<close>.
\<close>

definition updatePortfolioValues :: "MarketData \<Rightarrow> PortfolioAgent \<Rightarrow> PortfolioAgent" where
  "updatePortfolioValues marketData a =
     (let repriced =
            map (\<lambda>asset.
                   if truthy (prices marketData (asset_id asset))
                   then asset\<lparr> currentPrice := orElse (prices marketData (asset_id asset)) 0,
                               marketValue :=
                                 asset_quantity asset * orElse (prices marketData (asset_id asset)) 0 \<rparr>
                   else asset)
              (assets (currentPortfolio (state a)));
          total = foldl (\<lambda>sum asset. sum + marketValue asset) 0 repriced;
          weighted =
            map (\<lambda>asset. asset\<lparr> weight := js_divide (Fin (marketValue asset)) (Fin total) \<rparr>)
              repriced
      in a\<lparr> state := (state a)\<lparr> currentPortfolio :=
             (currentPortfolio (state a))\<lparr> assets := weighted, totalValue := total \<rparr> \<rparr> \<rparr>)"

definition initiateEmergencyHedging :: "CycleEnv \<Rightarrow> PortfolioAgent \<Rightarrow> PortfolioAgent" where
  "initiateEmergencyHedging env a =
     (let a1 = addAlert CRITICAL RISK_LIMIT_BREACH (Literal ''Initiating emergency hedging'')
                 (cyc_alertTime env) a;
          emergencyRecommendation =
            \<lparr> rec_id = ''emergency-'' @ decimal (cyc_hedgeIdTime env),
              rec_type = HEDGE,
              priority = CRITICAL,
              title = ''Emergency Risk Hedging'',
              actionItems =
                [\<lparr> item_asset = None, item_action = ITEM_HEDGE, item_quantity = None,
                   item_percentage = Some (30 / 100),
                   rationale = ''Emergency hedge to reduce portfolio risk exposure'' \<rparr>],
              impact = \<lparr> riskReduction = Some (50 / 100), yieldImprovement = None,
                         diversificationImprovement = None, estimatedCost = None,
                         timeframe = ''immediate'' \<rparr> \<rparr>
      in snd (executeDecision emergencyRecommendation (cyc_hedgeEnv env) a1))"

definition checkRiskLimits :: "CycleEnv \<Rightarrow> Analysis \<Rightarrow> PortfolioAgent \<Rightarrow> PortfolioAgent" where
  "checkRiskLimits env analysis a =
     (let a1 =
            (if valueAtRisk analysis > maxDailyVaR (riskLimits (config a))
             then (let a' = addAlert CRITICAL RISK_LIMIT_BREACH
                              (DailyVaRExceeded (valueAtRisk analysis)
                                 (maxDailyVaR (riskLimits (config a))))
                              (cyc_alertTime env) a
                   in if autonomyLevel (config a') = FULL_AUTO
                      then initiateEmergencyHedging env a' else a')
             else a)
      in if singleAssetMax analysis > maxSingleAssetWeight (riskLimits (config a1))
         then addAlert HIGH RISK_LIMIT_BREACH
                (SingleAssetConcentrationExceeded (singleAssetMax analysis))
                (cyc_alertTime env) a1
         else a1)"

text \<open>The loop of the cycle over the candidates; \<open>i\<close> counts them.\<close>

fun cycleCandidates ::
  "int \<Rightarrow> CycleEnv \<Rightarrow> MarketData \<Rightarrow> nat \<Rightarrow> Recommendation list \<Rightarrow> PortfolioAgent \<Rightarrow> PortfolioAgent" where
  "cycleCandidates tz env marketData i [] a = a"
| "cycleCandidates tz env marketData i (r # rs) a =
     cycleCandidates tz env marketData (Suc i) rs
       (if meetsExecutionCriteria tz (cyc_gateTime env i) r marketData a
        then snd (executeDecision r (cyc_decisionEnv env i) a)
        else a)"

definition cycleFailed :: "CycleEnv \<Rightarrow> string \<Rightarrow> PortfolioAgent \<Rightarrow> PortfolioAgent" where
  "cycleFailed env msg a =
     addAlert CRITICAL SYSTEM_ERROR (ExecutionCycleFailed msg) (cyc_alertTime env)
       (a\<lparr> state := (state a)\<lparr> agent_status := ERROR \<rparr> \<rparr>)"

definition executionCycle :: "int \<Rightarrow> CycleEnv \<Rightarrow> PortfolioAgent \<Rightarrow> PortfolioAgent" where
  "executionCycle tz env a =
     (if agent_status (state a) \<noteq> ACTIVE then a
      else (case cyc_marketData env of
              Inl msg \<Rightarrow> cycleFailed env msg a
            | Inr marketData \<Rightarrow>
                (let a1 = updatePortfolioValues marketData a in
                 case cyc_analyze env (currentPortfolio (state a1)) of
                   Inl msg \<Rightarrow> cycleFailed env msg a1
                 | Inr analysis \<Rightarrow>
                     (let criticalRecommendations =
                            filter (\<lambda>r. priority r = CRITICAL \<or> priority r = HIGH)
                              (recommendations analysis);
                          a2 = cycleCandidates tz env marketData 0 criticalRecommendations a1
                      in case cyc_analyze env (currentPortfolio (state a2)) of
                           Inl msg \<Rightarrow> cycleFailed env msg a2
                         | Inr analysis' \<Rightarrow> checkRiskLimits env analysis' a2))))"

subsection \<open>Runs of an agent\<close>

text \<open>The operations of an agent, each with what it takes from its environment.\<close>

datatype AgentOp =
    OpStart int
  | OpStop int
  | OpPause int
  | OpExecuteDecision Recommendation DecisionEnv
  | OpExecutionCycle int CycleEnv
  | OpUpdateConfig ConfigPatch
  | OpGetState
  | OpGetDecisionHistory

fun applyOp :: "AgentOp \<Rightarrow> PortfolioAgent \<Rightarrow> PortfolioAgent" where
  "applyOp (OpStart now) a = start now a"
| "applyOp (OpStop now) a = stop now a"
| "applyOp (OpPause now) a = pause now a"
| "applyOp (OpExecuteDecision r env) a = snd (executeDecision r env a)"
| "applyOp (OpExecutionCycle tz env) a = executionCycle tz env a"
| "applyOp (OpUpdateConfig newConfig) a = updateConfig newConfig a"
| "applyOp OpGetState a = a"
| "applyOp OpGetDecisionHistory a = a"

fun run :: "AgentOp list \<Rightarrow> PortfolioAgent \<Rightarrow> PortfolioAgent" where
  "run [] a = a"
| "run (op # ops) a = run ops (applyOp op a)"

text \<open>An operation that leaves the configured autonomy level as it is.\<close>

fun keepsAutonomy :: "AgentOp \<Rightarrow> bool" where
  "keepsAutonomy (OpUpdateConfig newConfig) = (patch_autonomyLevel newConfig = None)"
| "keepsAutonomy op = True"

section \<open>AgentMonitor\<close>

record MonitoringConfig =
  checkInterval :: nat
  emergencyContacts :: "string list"

text \<open>
  The monitor reports on the console, and in this code the console is also where its
  emergency notification goes: one line with the message, then one line per contact
  (the call that would deliver the message is commented out in the source).
\<close>

datatype ConsoleLine =
    AgentRegistered string
  | AgentUnregistered string
  | MonitoringStarted
  | MonitoringStopped
  | EmergencyShutdownInitiated string
  | AgentStopped string
  | FailedToStopAgent string string
  | EmergencyNotification string int
  | Notifying string
  | OverrideExecuted string
  | OverrideFailed string string

text \<open>
  The registry is a JavaScript \<open>Map\<close>: an association list in insertion order, with
  at most one entry per key.
\<close>

record AgentMonitor =
  agents :: "(string \<times> PortfolioAgent) list"
  monitor_config :: MonitoringConfig
  monitor_intervalId :: "nat option"
  monitor_timers :: "nat list"
  monitor_nextHandle :: nat
  emergencyShutdownActive :: bool
  console :: "ConsoleLine list"

definition newMonitor :: "MonitoringConfig \<Rightarrow> AgentMonitor" where
  "newMonitor cfg =
     \<lparr> agents = [], monitor_config = cfg, monitor_intervalId = None, monitor_timers = [],
       monitor_nextHandle = 0, emergencyShutdownActive = False, console = [] \<rparr>"

fun mapSet :: "'k \<Rightarrow> 'v \<Rightarrow> ('k \<times> 'v) list \<Rightarrow> ('k \<times> 'v) list" where
  "mapSet k v [] = [(k, v)]"
| "mapSet k v ((k', v') # rest) = (if k' = k then (k, v) # rest else (k', v') # mapSet k v rest)"

definition registerAgent :: "PortfolioAgent \<Rightarrow> AgentMonitor \<Rightarrow> AgentMonitor" where
  "registerAgent agent m =
     (let st = getState agent
      in m\<lparr> agents := mapSet (state_id st) agent (agents m),
            console := console m @ [AgentRegistered (state_id st)] \<rparr>)"

definition unregisterAgent :: "string \<Rightarrow> AgentMonitor \<Rightarrow> AgentMonitor" where
  "unregisterAgent agentId m =
     m\<lparr> agents := filter (\<lambda>entry. fst entry \<noteq> agentId) (agents m),
        console := console m @ [AgentUnregistered agentId] \<rparr>"

definition startMonitoring :: "AgentMonitor \<Rightarrow> AgentMonitor" where
  "startMonitoring m =
     m\<lparr> console := console m @ [MonitoringStarted],
        monitor_intervalId := Some (monitor_nextHandle m),
        monitor_timers := monitor_timers m @ [monitor_nextHandle m],
        monitor_nextHandle := Suc (monitor_nextHandle m) \<rparr>"

definition stopMonitoring :: "AgentMonitor \<Rightarrow> AgentMonitor" where
  "stopMonitoring m =
     (let m1 = (case monitor_intervalId m of
                  Some h \<Rightarrow> m\<lparr> monitor_timers := removeAll h (monitor_timers m),
                              monitor_intervalId := None \<rparr>
                | None \<Rightarrow> m)
      in m1\<lparr> console := console m1 @ [MonitoringStopped] \<rparr>)"

text \<open>
  The monitor calls \<open>agent.stop()\<close> inside \<open>try\<close>/\<open>catch\<close>. The loop is therefore
  stated for any stop method: one that returns the agent as it left it and, when it
  threw, the error. \<open>agentStop\<close> is the method of \<open>PortfolioAgent\<close>, which does not
  throw.
\<close>

type_synonym StopMethod = "PortfolioAgent \<Rightarrow> PortfolioAgent \<times> string option"

definition agentStop :: "int \<Rightarrow> StopMethod" where
  "agentStop now agent = (stop now agent, None)"

fun stopAgents ::
  "StopMethod \<Rightarrow> (string \<times> PortfolioAgent) list \<Rightarrow>
   (string \<times> PortfolioAgent) list \<times> ConsoleLine list" where
  "stopAgents stopMethod [] = ([], [])"
| "stopAgents stopMethod ((agentId, agent) # rest) =
     (case stopMethod agent of
        (agent', thrown) \<Rightarrow>
          (case stopAgents stopMethod rest of
             (rest', lines) \<Rightarrow>
               ((agentId, agent') # rest',
                (case thrown of
                   None \<Rightarrow> AgentStopped agentId
                 | Some err \<Rightarrow> FailedToStopAgent agentId err) # lines)))"

definition sendEmergencyNotification :: "string \<Rightarrow> int \<Rightarrow> AgentMonitor \<Rightarrow> AgentMonitor" where
  "sendEmergencyNotification reason now m =
     m\<lparr> console := console m @ [EmergencyNotification reason now] @
          map Notifying (emergencyContacts (monitor_config m)) \<rparr>"

text \<open>
  \<open>emergencyShutdown\<close> is an async function with one \<open>await\<close>, on the notification
  (whose body has none). \<open>shutdownToAwait\<close> is the part that runs before control can
  pass to another task, with \<open>None\<close> for the immediate return under the flag;
  \<open>shutdownAfterAwait\<close> is the rest.
\<close>

definition shutdownToAwait ::
  "StopMethod \<Rightarrow> string \<Rightarrow> int \<Rightarrow> AgentMonitor \<Rightarrow> AgentMonitor option" where
  "shutdownToAwait stopMethod reason now m =
     (if emergencyShutdownActive m then None
      else (let m1 = m\<lparr> emergencyShutdownActive := True,
                         console := console m @ [EmergencyShutdownInitiated reason] \<rparr>
            in case stopAgents stopMethod (agents m1) of
                 (stopped, lines) \<Rightarrow>
                   Some (sendEmergencyNotification reason now
                     (m1\<lparr> agents := stopped, console := console m1 @ lines \<rparr>))))"

definition shutdownAfterAwait :: "AgentMonitor \<Rightarrow> AgentMonitor" where
  "shutdownAfterAwait m = stopMonitoring m"

definition emergencyShutdown ::
  "StopMethod \<Rightarrow> string \<Rightarrow> int \<Rightarrow> AgentMonitor \<Rightarrow> AgentMonitor" where
  "emergencyShutdown stopMethod reason now m =
     (case shutdownToAwait stopMethod reason now m of
        None \<Rightarrow> m
      | Some m' \<Rightarrow> shutdownAfterAwait m')"

text \<open>The agent a console line of the stop loop is about.\<close>

fun stopLineAgent :: "ConsoleLine \<Rightarrow> string option" where
  "stopLineAgent (AgentStopped agentId) = Some agentId"
| "stopLineAgent (FailedToStopAgent agentId err) = Some agentId"
| "stopLineAgent line = None"

section \<open>The state object and its references\<close>

text \<open>
  \<open>getState\<close> returns \<open>{ ...this.state }\<close>. What a caller can reach through the
  result depends on which objects the copy shares with the agent, so here the state
  is laid out in a store: the state object holds its scalar fields and references to
  the portfolio object, the watchlist array, the alerts array and the performance
  object; the alerts array holds references to the alert objects.
\<close>

type_synonym ref = nat

record StateObject =
  obj_id :: string
  obj_status :: AgentStatus
  obj_lastDecision :: int
  obj_totalDecisions :: nat
  obj_successRate :: real
  obj_currentPortfolio :: ref
  obj_watchlist :: ref
  obj_alerts :: ref
  obj_performance :: ref

record Heap =
  stateObjects :: "ref \<rightharpoonup> StateObject"
  portfolioObjects :: "ref \<rightharpoonup> Portfolio"
  assetArrays :: "ref \<rightharpoonup> Asset list"
  alertArrays :: "ref \<rightharpoonup> ref list"
  alertObjects :: "ref \<rightharpoonup> Alert"
  performanceObjects :: "ref \<rightharpoonup> AgentPerformance"
  nextRef :: ref

definition emptyHeap :: Heap where
  "emptyHeap =
     \<lparr> stateObjects = Map.empty, portfolioObjects = Map.empty, assetArrays = Map.empty,
       alertArrays = Map.empty, alertObjects = Map.empty, performanceObjects = Map.empty,
       nextRef = 0 \<rparr>"

text \<open>Laying a state value out in the store; the result is the state object's reference.\<close>

fun storeAlerts :: "Alert list \<Rightarrow> Heap \<Rightarrow> ref list \<times> Heap" where
  "storeAlerts [] h = ([], h)"
| "storeAlerts (al # als) h =
     (case storeAlerts als
             (h\<lparr> alertObjects := (alertObjects h)(nextRef h \<mapsto> al), nextRef := Suc (nextRef h) \<rparr>) of
        (refs, h') \<Rightarrow> (nextRef h # refs, h'))"

definition storeState :: "AgentState \<Rightarrow> Heap \<Rightarrow> ref \<times> Heap" where
  "storeState s h =
     (case storeAlerts (alerts s) h of
        (alertRefs, h1) \<Rightarrow>
          (let n = nextRef h1
           in (n + 4,
               h1\<lparr> alertArrays := (alertArrays h1)(n \<mapsto> alertRefs),
                   portfolioObjects := (portfolioObjects h1)(n + 1 \<mapsto> currentPortfolio s),
                   assetArrays := (assetArrays h1)(n + 2 \<mapsto> watchlist s),
                   performanceObjects := (performanceObjects h1)(n + 3 \<mapsto> performance s),
                   stateObjects := (stateObjects h1)(n + 4 \<mapsto>
                     \<lparr> obj_id = state_id s, obj_status = agent_status s,
                       obj_lastDecision = lastDecision s,
                       obj_totalDecisions = totalDecisions s,
                       obj_successRate = successRate s,
                       obj_currentPortfolio = n + 1, obj_watchlist = n + 2,
                       obj_alerts = n, obj_performance = n + 3 \<rparr>),
                   nextRef := n + 5 \<rparr>)))"

text \<open>The state value that a state object and everything it refers to hold.\<close>

definition readState :: "Heap \<Rightarrow> ref \<Rightarrow> AgentState option" where
  "readState h r =
     (case stateObjects h r of
        None \<Rightarrow> None
      | Some obj \<Rightarrow>
          (case (portfolioObjects h (obj_currentPortfolio obj),
                 assetArrays h (obj_watchlist obj),
                 alertArrays h (obj_alerts obj),
                 performanceObjects h (obj_performance obj)) of
             (Some p, Some w, Some refs, Some perf) \<Rightarrow>
               (case those (map (alertObjects h) refs) of
                  Some als \<Rightarrow>
                    Some \<lparr> state_id = obj_id obj, agent_status = obj_status obj,
                           lastDecision = obj_lastDecision obj,
                           totalDecisions = obj_totalDecisions obj,
                           successRate = obj_successRate obj, currentPortfolio = p,
                           watchlist = w, alerts = als, performance = perf \<rparr>
                | None \<Rightarrow> None)
           | _ \<Rightarrow> None))"

text \<open>
  \<open>getState\<close> in the store: a new state object with the fields of \<open>this.state\<close>, the
  scalars by value and the four references as they are.
\<close>

definition heapGetState :: "Heap \<Rightarrow> ref \<Rightarrow> (ref \<times> Heap) option" where
  "heapGetState h agentState =
     (case stateObjects h agentState of
        None \<Rightarrow> None
      | Some obj \<Rightarrow>
          Some (nextRef h,
                h\<lparr> stateObjects := (stateObjects h)(nextRef h \<mapsto> obj),
                   nextRef := Suc (nextRef h) \<rparr>))"

text \<open>
  What a caller can do to the object it got: assign to one of its fields, or write
  through one of its references. A write through a missing reference or index throws
  and changes nothing.
\<close>

datatype Mutation =
    AssignId string
  | AssignStatus AgentStatus
  | AssignLastDecision int
  | AssignTotalDecisions nat
  | AssignSuccessRate real
  | AssignCurrentPortfolio ref
  | AssignWatchlist ref
  | AssignAlerts ref
  | AssignPerformance ref
  | SetAcknowledged nat bool
  | TruncateAlerts nat
  | SetMaxDrawdown real
  | SetTotalValue real

fun assignsField :: "Mutation \<Rightarrow> bool" where
  "assignsField (SetAcknowledged i b) = False"
| "assignsField (TruncateAlerts n) = False"
| "assignsField (SetMaxDrawdown x) = False"
| "assignsField (SetTotalValue x) = False"
| "assignsField mu = True"

definition updateStateObject :: "ref \<Rightarrow> (StateObject \<Rightarrow> StateObject) \<Rightarrow> Heap \<Rightarrow> Heap" where
  "updateStateObject r f h =
     (case stateObjects h r of
        Some obj \<Rightarrow> h\<lparr> stateObjects := (stateObjects h)(r \<mapsto> f obj) \<rparr>
      | None \<Rightarrow> h)"

definition updateAlertObject :: "ref \<Rightarrow> (Alert \<Rightarrow> Alert) \<Rightarrow> Heap \<Rightarrow> Heap" where
  "updateAlertObject r f h =
     (case alertObjects h r of
        Some al \<Rightarrow> h\<lparr> alertObjects := (alertObjects h)(r \<mapsto> f al) \<rparr>
      | None \<Rightarrow> h)"

fun mutate :: "Mutation \<Rightarrow> ref \<Rightarrow> Heap \<Rightarrow> Heap" where
  "mutate (AssignId v) r h = updateStateObject r (\<lambda>obj. obj\<lparr> obj_id := v \<rparr>) h"
| "mutate (AssignStatus v) r h = updateStateObject r (\<lambda>obj. obj\<lparr> obj_status := v \<rparr>) h"
| "mutate (AssignLastDecision v) r h = updateStateObject r (\<lambda>obj. obj\<lparr> obj_lastDecision := v \<rparr>) h"
| "mutate (AssignTotalDecisions v) r h = updateStateObject r (\<lambda>obj. obj\<lparr> obj_totalDecisions := v \<rparr>) h"
| "mutate (AssignSuccessRate v) r h = updateStateObject r (\<lambda>obj. obj\<lparr> obj_successRate := v \<rparr>) h"
| "mutate (AssignCurrentPortfolio v) r h = updateStateObject r (\<lambda>obj. obj\<lparr> obj_currentPortfolio := v \<rparr>) h"
| "mutate (AssignWatchlist v) r h = updateStateObject r (\<lambda>obj. obj\<lparr> obj_watchlist := v \<rparr>) h"
| "mutate (AssignAlerts v) r h = updateStateObject r (\<lambda>obj. obj\<lparr> obj_alerts := v \<rparr>) h"
| "mutate (AssignPerformance v) r h = updateStateObject r (\<lambda>obj. obj\<lparr> obj_performance := v \<rparr>) h"
| "mutate (SetAcknowledged i b) r h =
     (case stateObjects h r of
        None \<Rightarrow> h
      | Some obj \<Rightarrow>
          (case alertArrays h (obj_alerts obj) of
             None \<Rightarrow> h
           | Some refs \<Rightarrow>
               (if i < length refs
                then updateAlertObject (refs ! i) (\<lambda>al. al\<lparr> acknowledged := b \<rparr>) h
                else h)))"
| "mutate (TruncateAlerts n) r h =
     (case stateObjects h r of
        None \<Rightarrow> h
      | Some obj \<Rightarrow>
          (case alertArrays h (obj_alerts obj) of
             None \<Rightarrow> h
           | Some refs \<Rightarrow>
               (if n \<le> length refs
                then h\<lparr> alertArrays := (alertArrays h)(obj_alerts obj \<mapsto> take n refs) \<rparr>
                else h)))"
| "mutate (SetMaxDrawdown x) r h =
     (case stateObjects h r of
        None \<Rightarrow> h
      | Some obj \<Rightarrow>
          (case performanceObjects h (obj_performance obj) of
             None \<Rightarrow> h
           | Some perf \<Rightarrow>
               h\<lparr> performanceObjects :=
                   (performanceObjects h)(obj_performance obj \<mapsto> perf\<lparr> maxDrawdown := x \<rparr>) \<rparr>))"
| "mutate (SetTotalValue x) r h =
     (case stateObjects h r of
        None \<Rightarrow> h
      | Some obj \<Rightarrow>
          (case portfolioObjects h (obj_currentPortfolio obj) of
             None \<Rightarrow> h
           | Some p \<Rightarrow>
               h\<lparr> portfolioObjects :=
                   (portfolioObjects h)(obj_currentPortfolio obj \<mapsto> p\<lparr> totalValue := x \<rparr>) \<rparr>))"

text \<open>
  \<open>AgentMonitor.acknowledgeAlert\<close> in the store. The registry maps an agent's id to
  the agent, here to the reference of its state object.
\<close>

definition acknowledgeAlert ::
  "(string \<times> ref) list \<Rightarrow> string \<Rightarrow> string \<Rightarrow> Heap \<Rightarrow> bool \<times> Heap" where
  "acknowledgeAlert registry agentId alertId h =
     (case map_of registry agentId of
        None \<Rightarrow> (False, h)
      | Some agent \<Rightarrow>
          (case heapGetState h agent of
             None \<Rightarrow> (False, h)
           | Some (st, h1) \<Rightarrow>
               (case stateObjects h1 st of
                  None \<Rightarrow> (False, h1)
                | Some obj \<Rightarrow>
                    (case alertArrays h1 (obj_alerts obj) of
                       None \<Rightarrow> (False, h1)
                     | Some refs \<Rightarrow>
                         (case find (\<lambda>r. case alertObjects h1 r of
                                            Some al \<Rightarrow> alert_id al = alertId
                                          | None \<Rightarrow> False) refs of
                            Some r \<Rightarrow>
                              (True, updateAlertObject r (\<lambda>al. al\<lparr> acknowledged := True \<rparr>) h1)
                          | None \<Rightarrow> (False, h1))))))"

section \<open>Concrete inputs\<close>

text \<open>The inputs at which the theorems below are evaluated.\<close>

definition treasury_note :: Asset where
  "treasury_note =
     \<lparr> asset_id = ''T1'', asset_name = ''Treasury Note'', asset_type = SECURITY,
       securityType = Some TREASURY, currentPrice = 101, asset_quantity = 1000,
       marketValue = 101000, weight = Fin (1 / 2) \<rparr>"

definition single_share :: Asset where
  "single_share =
     \<lparr> asset_id = ''S1'', asset_name = ''Single Share'', asset_type = SECURITY,
       securityType = Some STOCK, currentPrice = 100, asset_quantity = 1,
       marketValue = 100, weight = Fin (1 / 2) \<rparr>"

definition limit_buy_order :: TradeOrder where
  "limit_buy_order =
     \<lparr> order_asset = treasury_note, order_action = BUY, order_quantity = 10,
       orderType = LIMIT, limitPrice = Some (10000006 / 100000),
       slippageTolerance = 1 / 100 \<rparr>"

definition limit_sell_order :: TradeOrder where
  "limit_sell_order =
     \<lparr> order_asset = treasury_note, order_action = SELL, order_quantity = 10,
       orderType = LIMIT, limitPrice = Some (10200004 / 100000),
       slippageTolerance = 1 / 100 \<rparr>"

definition one_share_order :: TradeOrder where
  "one_share_order =
     \<lparr> order_asset = single_share, order_action = BUY, order_quantity = 1,
       orderType = MARKET, limitPrice = None, slippageTolerance = 1 / 100 \<rparr>"

definition succeeding_env :: TradeEnv where
  "succeeding_env =
     \<lparr> env_tradeId = ''trade-1'', env_tradeTime = 36000500, rnd_slippage = 1 / 2,
       rnd_success = 1 / 2, rnd_fill = 0 \<rparr>"

definition failing_env :: TradeEnv where
  "failing_env =
     \<lparr> env_tradeId = ''trade-2'', env_tradeTime = 36000500, rnd_slippage = 1 / 2,
       rnd_success = 1 / 100, rnd_fill = 0 \<rparr>"

definition office_hours :: TradingHours where
  "office_hours = \<lparr> startHour = Some 9, endHour = Some 17, excludeWeekends = False \<rparr>"

definition full_auto_config :: AgentConfig where
  "full_auto_config =
     \<lparr> config_id = ''agent-1'', enabled = True,
       riskLimits = \<lparr> maxSingleAssetWeight = 2 / 10, maxDailyVaR = 500000 \<rparr>,
       tradingLimits = \<lparr> maxDailyTradeVolume = 1, maxSingleTradeSize = 1,
                         maxTradesPerHour = 1, tradingHours = office_hours \<rparr>,
       autonomyLevel = FULL_AUTO,
       executionSettings = \<lparr> settings_slippageTolerance = 1 / 100,
                             settings_orderType = MARKET, confirmationRequired = False,
                             simulationMode = False \<rparr> \<rparr>"

definition advisory_config :: AgentConfig where
  "advisory_config = full_auto_config\<lparr> autonomyLevel := ADVISORY_ONLY \<rparr>"

definition semi_auto_config :: AgentConfig where
  "semi_auto_config = full_auto_config\<lparr> autonomyLevel := SEMI_AUTO \<rparr>"

definition disabled_config :: AgentConfig where
  "disabled_config = full_auto_config\<lparr> enabled := False \<rparr>"

definition small_portfolio :: Portfolio where
  "small_portfolio =
     \<lparr> portfolio_id = ''p-1'', assets = [treasury_note, single_share], totalValue = 101100 \<rparr>"

definition sell_item :: ActionItem where
  "sell_item =
     \<lparr> item_asset = Some treasury_note, item_action = ITEM_SELL, item_quantity = Some 10,
       item_percentage = None, rationale = ''Reduce position'' \<rparr>"

definition two_sales :: Recommendation where
  "two_sales =
     \<lparr> rec_id = ''rec-1'', rec_type = REDUCE_CONCENTRATION, priority = CRITICAL,
       title = ''Reduce concentration'', actionItems = [sell_item, sell_item],
       impact = \<lparr> riskReduction = Some (3 / 10), yieldImprovement = None,
                  diversificationImprovement = None, estimatedCost = None,
                  timeframe = ''1 week'' \<rparr> \<rparr>"

text \<open>A decision taken at 10:00:00 of day 0 and recorded two seconds later.\<close>

definition morning_env :: DecisionEnv where
  "morning_env =
     \<lparr> env_idTime = 36000000, env_timestamp = 36000000, env_reasoning = ''Strategic Rationale'',
       env_execStart = 36000000, env_execEnd = 36002000, env_trade = (\<lambda>n. succeeding_env),
       env_recorded = 36002000 \<rparr>"

definition fresh_agent :: "AgentConfig \<Rightarrow> PortfolioAgent" where
  "fresh_agent cfg = newAgent cfg small_portfolio 0"

text \<open>The full-auto agent after it has executed \<open>two_sales\<close> in the morning.\<close>

definition traded_agent :: PortfolioAgent where
  "traded_agent = snd (executeDecision two_sales morning_env (fresh_agent full_auto_config))"

definition calm_market :: MarketData where
  "calm_market = \<lparr> prices = Map.empty, sentiment_volatility = VOL_LOW \<rparr>"

text \<open>A cycle whose analysis reports a breached VaR limit and one critical recommendation.\<close>

definition quiet_cycle :: CycleEnv where
  "quiet_cycle =
     \<lparr> cyc_marketData = Inr calm_market,
       cyc_analyze = (\<lambda>p. Inr \<lparr> valueAtRisk = 600000, singleAssetMax = 1 / 2,
                               recommendations = [two_sales] \<rparr>),
       cyc_gateTime = (\<lambda>n. 36000000),
       cyc_decisionEnv = (\<lambda>n. morning_env),
       cyc_alertTime = 36003000,
       cyc_hedgeIdTime = 36003000,
       cyc_hedgeEnv = morning_env \<rparr>"

text \<open>A stop method that throws on the agent \<open>agent-1\<close> and stops every other agent.\<close>

definition failingStop :: StopMethod where
  "failingStop agent =
     (if state_id (state agent) = ''agent-1'' then (agent, Some ''timer table corrupted'')
      else (stop 50000000 agent, None))"

definition second_config :: AgentConfig where
  "second_config = full_auto_config\<lparr> config_id := ''agent-2'' \<rparr>"

definition watched_monitor :: AgentMonitor where
  "watched_monitor =
     startMonitoring
       (registerAgent (start 2 (fresh_agent second_config))
          (registerAgent (start 1 (fresh_agent full_auto_config))
             (newMonitor \<lparr> checkInterval = 30000,
                           emergencyContacts = [''risk@desk'', ''ops@desk''] \<rparr>)))"

text \<open>
  The state of a disabled agent after a refused \<open>start\<close>, which left one alert, laid
  out in an empty store.
\<close>

definition alerted_heap :: "ref \<times> Heap" where
  "alerted_heap = storeState (state (start 1 (fresh_agent disabled_config))) emptyHeap"

section \<open>Predicates of the statements\<close>

text \<open>A decision that was recorded without being executed.\<close>

definition unexecuted :: "AgentDecision \<Rightarrow> bool" where
  "unexecuted d = (status d = PENDING \<and> executionDetails d = None)"

text \<open>The same agent under another autonomy level.\<close>

definition withAutonomy :: "AutonomyLevel \<Rightarrow> PortfolioAgent \<Rightarrow> PortfolioAgent" where
  "withAutonomy level a = a\<lparr> config := (config a)\<lparr> autonomyLevel := level \<rparr> \<rparr>"

section \<open>What each operation leaves unchanged\<close>

lemmas executor_defs = simulateTradeExecution_def calculateExecutionPrice_def
  calculateMarketImpact_def calculateSlippage_def getEstimatedDailyVolume_def
  calculateExecutedQuantity_def math_round_def math_floor_def failedTrade_def executeTrade_def
  js_minus_def

lemma config_addAlert [simp]: "config (addAlert sev ty msg now a) = config a"
  by (simp add: addAlert_def Let_def)

lemma decisionHistory_addAlert [simp]: "decisionHistory (addAlert sev ty msg now a) = decisionHistory a"
  by (simp add: addAlert_def Let_def)

lemma status_addAlert [simp]: "agent_status (state (addAlert sev ty msg now a)) = agent_status (state a)"
  by (simp add: addAlert_def Let_def)

lemma intervalId_addAlert [simp]: "intervalId (addAlert sev ty msg now a) = intervalId a"
  by (simp add: addAlert_def Let_def)

lemma timers_addAlert [simp]: "timers (addAlert sev ty msg now a) = timers a"
  by (simp add: addAlert_def Let_def)

lemma nextHandle_addAlert [simp]: "nextHandle (addAlert sev ty msg now a) = nextHandle a"
  by (simp add: addAlert_def Let_def)

lemma alerts_addAlert_last:
  "alerts (state (addAlert sev ty msg now a)) \<noteq> [] \<and>
   last (alerts (state (addAlert sev ty msg now a))) =
     \<lparr> alert_id = ''alert-'' @ decimal now, severity = sev, alert_type = ty,
       message = msg, alert_timestamp = now, acknowledged = False \<rparr>"
  by (simp add: addAlert_def Let_def)

lemma config_start [simp]: "config (start now a) = config a"
  by (simp add: start_def Let_def)
lemma config_stop [simp]: "config (stop now a) = config a"
  by (simp add: stop_def Let_def split: option.splits)
lemma config_pause [simp]: "config (pause now a) = config a"
  by (simp add: pause_def)
lemma decisionHistory_start [simp]: "decisionHistory (start now a) = decisionHistory a"
  by (simp add: start_def Let_def)
lemma decisionHistory_stop [simp]: "decisionHistory (stop now a) = decisionHistory a"
  by (simp add: stop_def Let_def split: option.splits)
lemma decisionHistory_pause [simp]: "decisionHistory (pause now a) = decisionHistory a"
  by (simp add: pause_def)
lemma decisionHistory_updateConfig [simp]: "decisionHistory (updateConfig p a) = decisionHistory a"
  by (simp add: updateConfig_def)
lemma autonomy_updateConfig:
  "patch_autonomyLevel p = None \<Longrightarrow> autonomyLevel (config (updateConfig p a)) = autonomyLevel (config a)"
  by (simp add: updateConfig_def orElse_def)
lemma config_updatePortfolioValues [simp]: "config (updatePortfolioValues md a) = config a"
  by (simp add: updatePortfolioValues_def Let_def)
lemma decisionHistory_updatePortfolioValues [simp]:
  "decisionHistory (updatePortfolioValues md a) = decisionHistory a"
  by (simp add: updatePortfolioValues_def Let_def)
lemma config_executeDecision [simp]: "config (snd (executeDecision r env a)) = config a"
  by (simp add: executeDecision_def Let_def)
lemma decisionHistory_executeDecision:
  "decisionHistory (snd (executeDecision r env a)) = decisionHistory a @ [fst (executeDecision r env a)]"
  by (simp add: executeDecision_def Let_def)
lemma config_cycleFailed [simp]: "config (cycleFailed env msg a) = config a"
  by (simp add: cycleFailed_def)
lemma decisionHistory_cycleFailed [simp]: "decisionHistory (cycleFailed env msg a) = decisionHistory a"
  by (simp add: cycleFailed_def)
lemma config_initiateEmergencyHedging [simp]: "config (initiateEmergencyHedging env a) = config a"
  by (simp add: initiateEmergencyHedging_def Let_def)
lemma config_checkRiskLimits [simp]: "config (checkRiskLimits env an a) = config a"
  by (simp add: checkRiskLimits_def Let_def)
lemma config_cycleCandidates [simp]: "config (cycleCandidates tz env md i rs a) = config a"
  by (induction rs arbitrary: i a) simp_all
lemma config_executionCycle [simp]: "config (executionCycle tz env a) = config a"
  by (simp add: executionCycle_def Let_def split: sum.splits)

lemma autonomy_applyOp:
  "keepsAutonomy op \<Longrightarrow> autonomyLevel (config (applyOp op a)) = autonomyLevel (config a)"
  by (cases op) (simp_all add: autonomy_updateConfig)

lemma prefix_executeDecision: "prefix (decisionHistory a) (decisionHistory (snd (executeDecision r env a)))"
  by (simp add: decisionHistory_executeDecision)
lemma prefix_initiateEmergencyHedging: "prefix (decisionHistory a) (decisionHistory (initiateEmergencyHedging env a))"
  by (simp add: initiateEmergencyHedging_def Let_def decisionHistory_executeDecision)
lemma prefix_checkRiskLimits: "prefix (decisionHistory a) (decisionHistory (checkRiskLimits env an a))"
  using prefix_initiateEmergencyHedging[of "addAlert CRITICAL RISK_LIMIT_BREACH
                              (DailyVaRExceeded (valueAtRisk an)
                                 (maxDailyVaR (riskLimits (config a))))
                              (cyc_alertTime env) a" env]
  by (simp add: checkRiskLimits_def Let_def)
lemma prefix_cycleCandidates: "prefix (decisionHistory a) (decisionHistory (cycleCandidates tz env md i rs a))"
proof (induction rs arbitrary: i a)
  case Nil
  then show ?case by simp
next
  case (Cons r rs)
  show ?case
  proof (cases "meetsExecutionCriteria tz (cyc_gateTime env i) r md a")
    case True
    have "prefix (decisionHistory a) (decisionHistory (snd (executeDecision r (cyc_decisionEnv env i) a)))"
      by (rule prefix_executeDecision)
    also have "prefix \<dots> (decisionHistory (cycleCandidates tz env md (Suc i) rs (snd (executeDecision r (cyc_decisionEnv env i) a))))"
      by (rule Cons.IH)
    finally show ?thesis using True by simp
  next
    case False
    then show ?thesis using Cons.IH[of a "Suc i"] by simp
  qed
qed
lemma prefix_executionCycle: "prefix (decisionHistory a) (decisionHistory (executionCycle tz env a))"
proof -
  have c: "\<And>md. prefix (decisionHistory a) (decisionHistory (updatePortfolioValues md a))" by simp
  show ?thesis
    unfolding executionCycle_def Let_def
    apply (simp split: sum.splits)
    apply (intro conjI allI impI)
       apply (metis decisionHistory_updatePortfolioValues prefix_cycleCandidates)
      apply (metis decisionHistory_updatePortfolioValues prefix_cycleCandidates prefix_checkRiskLimits prefix_order.trans)
    done
qed
lemma prefix_applyOp: "prefix (decisionHistory a) (decisionHistory (applyOp op a))"
  by (cases op) (simp_all add: prefix_executeDecision prefix_executionCycle)
lemma prefix_run: "prefix (decisionHistory a) (decisionHistory (run ops a))"
proof (induction ops arbitrary: a)
  case Nil
  then show ?case by simp
next
  case (Cons op ops)
  have "prefix (decisionHistory a) (decisionHistory (applyOp op a))" by (rule prefix_applyOp)
  also have "prefix \<dots> (decisionHistory (run ops (applyOp op a)))" by (rule Cons.IH)
  finally show ?case by simp
qed

lemma autonomy_run:
  "list_all keepsAutonomy ops \<Longrightarrow> autonomyLevel (config (run ops a)) = autonomyLevel (config a)"
  by (induction ops arbitrary: a) (simp_all add: autonomy_applyOp)

section \<open>The trade execution simulator\<close>

text \<open>
  C5 (amended). When the success draw is at most 0.05 the simulated execution fails, for
  every order: the trade returned has status FAILED and price 0, and its quantity is
  the quantity the order asked for (not 0).
\<close>

theorem failed_trade_record:
  assumes "rnd_success env \<le> 5 / 100"
  shows "trade_status (simulateTradeExecution order env) = TRADE_FAILED
       \<and> trade_price (simulateTradeExecution order env) = Fin 0
       \<and> trade_quantity (simulateTradeExecution order env) = order_quantity order"
  using assms by (simp add: simulateTradeExecution_def failedTrade_def Let_def)

theorem failed_trade_record_witness:
  "rnd_success failing_env \<le> 5 / 100
   \<and> trade_status (simulateTradeExecution limit_buy_order failing_env) = TRADE_FAILED
   \<and> trade_price (simulateTradeExecution limit_buy_order failing_env) = Fin 0
   \<and> trade_quantity (simulateTradeExecution limit_buy_order failing_env) = 10"
proof -
  have h: "rnd_success failing_env \<le> 5 / 100" by (simp add: failing_env_def)
  show ?thesis using h failed_trade_record[OF h, of limit_buy_order]
    by (simp add: limit_buy_order_def)
qed

text \<open>
  C5 as stated fails: an order for 10 units whose execution fails comes back with
  quantity 10.
\<close>

theorem failed_trade_quantity_counterexample:
  "rnd_success failing_env \<le> 5 / 100
   \<and> trade_status (simulateTradeExecution limit_buy_order failing_env) = TRADE_FAILED
   \<and> trade_quantity (simulateTradeExecution limit_buy_order failing_env) \<noteq> 0"
  by (simp add: simulateTradeExecution_def failedTrade_def failing_env_def limit_buy_order_def Let_def)

text \<open>
  C7, at two failing inputs. A LIMIT BUY of a treasury note priced 101 with limit
  100.00006: the price is clamped to the limit and then rounded to four decimals,
  which gives 100.0001, above the limit. A LIMIT SELL of the same note with limit
  102.00004 is clamped to the limit and rounded to 102, below the limit.
\<close>

theorem limit_price_crossed_after_rounding:
  "orderType limit_buy_order = LIMIT \<and> order_action limit_buy_order = BUY
   \<and> limitPrice limit_buy_order = Some (10000006 / 100000)
   \<and> trade_price (simulateTradeExecution limit_buy_order succeeding_env) = Fin (1000001 / 10000)
   \<and> (1000001 / 10000 :: real) > 10000006 / 100000
   \<and> orderType limit_sell_order = LIMIT \<and> order_action limit_sell_order = SELL
   \<and> limitPrice limit_sell_order = Some (10200004 / 100000)
   \<and> trade_price (simulateTradeExecution limit_sell_order succeeding_env) = Fin 102
   \<and> (102 :: real) < 10200004 / 100000"
  by (simp add: treasury_note_def limit_buy_order_def limit_sell_order_def succeeding_env_def
      executor_defs Let_def)




section \<open>The autonomy gate\<close>

lemma shouldAutoExecute_FULL_AUTO_only:
  "shouldAutoExecute cfg d \<Longrightarrow> autonomyLevel cfg = FULL_AUTO"
  by (simp add: shouldAutoExecute_def split: if_splits)

lemma executeDecision_not_full_auto:
  assumes "autonomyLevel (config a) \<noteq> FULL_AUTO"
  shows "status (fst (executeDecision r env a)) = PENDING \<and>
         executionDetails (fst (executeDecision r env a)) = None"
proof -
  have "\<And>d. \<not> shouldAutoExecute (config a) d"
    using assms shouldAutoExecute_FULL_AUTO_only by blast
  then show ?thesis by (simp add: executeDecision_def Let_def)
qed

lemma unexecuted_executeDecision:
  assumes "autonomyLevel (config a) \<noteq> FULL_AUTO" "list_all unexecuted (decisionHistory a)"
  shows "list_all unexecuted (decisionHistory (snd (executeDecision r env a)))"
  using assms executeDecision_not_full_auto[OF assms(1), of r env]
  by (simp add: decisionHistory_executeDecision unexecuted_def)

lemma unexecuted_cycleCandidates:
  assumes "autonomyLevel (config a) \<noteq> FULL_AUTO" "list_all unexecuted (decisionHistory a)"
  shows "list_all unexecuted (decisionHistory (cycleCandidates tz env md i rs a))"
  using assms
proof (induction rs arbitrary: i a)
  case Nil
  then show ?case by simp
next
  case (Cons r rs)
  show ?case
  proof (cases "meetsExecutionCriteria tz (cyc_gateTime env i) r md a")
    case True
    let ?a' = "snd (executeDecision r (cyc_decisionEnv env i) a)"
    have 1: "autonomyLevel (config ?a') \<noteq> FULL_AUTO" using Cons.prems(1) by simp
    have 2: "list_all unexecuted (decisionHistory ?a')"
      using Cons.prems by (rule unexecuted_executeDecision)
    show ?thesis using True Cons.IH[OF 1 2] by simp
  next
    case False
    then show ?thesis using Cons.IH[OF Cons.prems] by simp
  qed
qed

lemma checkRiskLimits_not_full_auto:
  assumes "autonomyLevel (config a) \<noteq> FULL_AUTO"
  shows "decisionHistory (checkRiskLimits env an a) = decisionHistory a"
  using assms by (simp add: checkRiskLimits_def Let_def)

lemma unexecuted_executionCycle:
  assumes "autonomyLevel (config a) \<noteq> FULL_AUTO" "list_all unexecuted (decisionHistory a)"
  shows "list_all unexecuted (decisionHistory (executionCycle tz env a))"
proof -
  have u: "\<And>md. autonomyLevel (config (updatePortfolioValues md a)) \<noteq> FULL_AUTO"
    using assms(1) by simp
  have h: "\<And>md. list_all unexecuted (decisionHistory (updatePortfolioValues md a))"
    using assms(2) by simp
  have c: "\<And>md i rs. list_all unexecuted
     (decisionHistory (cycleCandidates tz env md i rs (updatePortfolioValues md a)))"
    using unexecuted_cycleCandidates[OF u h] .
  have k: "\<And>md i rs an. decisionHistory (checkRiskLimits env an (cycleCandidates tz env md i rs (updatePortfolioValues md a)))
      = decisionHistory (cycleCandidates tz env md i rs (updatePortfolioValues md a))"
    using assms(1) by (simp add: checkRiskLimits_not_full_auto)
  show ?thesis
    using assms(2) c k by (simp add: executionCycle_def Let_def split: sum.splits)
qed

lemma unexecuted_applyOp:
  assumes "autonomyLevel (config a) \<noteq> FULL_AUTO" "list_all unexecuted (decisionHistory a)"
  shows "list_all unexecuted (decisionHistory (applyOp op a))"
  using assms by (cases op) (simp_all add: unexecuted_executeDecision unexecuted_executionCycle)

lemma unexecuted_run:
  assumes "autonomyLevel (config a) \<noteq> FULL_AUTO" "list_all keepsAutonomy ops"
          "list_all unexecuted (decisionHistory a)"
  shows "list_all unexecuted (decisionHistory (run ops a))"
  using assms
proof (induction ops arbitrary: a)
  case Nil
  then show ?case by simp
next
  case (Cons op ops)
  have k: "keepsAutonomy op" "list_all keepsAutonomy ops" using Cons.prems(2) by simp_all
  have 1: "autonomyLevel (config (applyOp op a)) \<noteq> FULL_AUTO"
    using Cons.prems(1) autonomy_applyOp[OF k(1), of a] by simp
  have 2: "list_all unexecuted (decisionHistory (applyOp op a))"
    using Cons.prems(1,3) by (rule unexecuted_applyOp)
  show ?case using Cons.IH[OF 1 k(2) 2] by simp
qed

lemma withAutonomy_simps [simp]:
  "state (withAutonomy l a) = state a"
  "decisionHistory (withAutonomy l a) = decisionHistory a"
  "autonomyLevel (config (withAutonomy l a)) = l"
  "tradingLimits (config (withAutonomy l a)) = tradingLimits (config a)"
  "riskLimits (config (withAutonomy l a)) = riskLimits (config a)"
  by (simp_all add: withAutonomy_def)

lemma addAlert_withAutonomy:
  "addAlert s t m n (withAutonomy l a) = withAutonomy l (addAlert s t m n a)"
  by (simp add: addAlert_def withAutonomy_def Let_def)

lemma updatePortfolioValues_withAutonomy:
  "updatePortfolioValues md (withAutonomy l a) = withAutonomy l (updatePortfolioValues md a)"
  by (simp add: updatePortfolioValues_def withAutonomy_def Let_def)

lemma cycleFailed_withAutonomy:
  "cycleFailed env msg (withAutonomy l a) = withAutonomy l (cycleFailed env msg a)"
  by (simp add: cycleFailed_def addAlert_def withAutonomy_def Let_def)

lemma meetsExecutionCriteria_withAutonomy:
  "meetsExecutionCriteria tz now r md (withAutonomy l a) = meetsExecutionCriteria tz now r md a"
  by (simp add: meetsExecutionCriteria_def isWithinTradingHours_def isWithinTradingLimits_def
      getTodayTrades_def getHourlyTrades_def Let_def)

lemma executeDecision_withAutonomy:
  assumes "autonomyLevel (config a) \<noteq> FULL_AUTO" "l \<noteq> FULL_AUTO"
  shows "executeDecision r env (withAutonomy l a) =
         (fst (executeDecision r env a), withAutonomy l (snd (executeDecision r env a)))"
proof -
  have 1: "\<And>d. \<not> shouldAutoExecute (config a) d"
    using assms(1) shouldAutoExecute_FULL_AUTO_only by blast
  have 2: "\<And>d. \<not> shouldAutoExecute (config (withAutonomy l a)) d"
    using assms(2) shouldAutoExecute_FULL_AUTO_only[of "config (withAutonomy l a)"] by auto
  show ?thesis
    using 1 2
    by (simp add: executeDecision_def Let_def assessDecisionRisk_def calculateExpectedOutcome_def)
       (simp add: withAutonomy_def)
qed

lemma cycleCandidates_withAutonomy:
  assumes "autonomyLevel (config a) \<noteq> FULL_AUTO" "l \<noteq> FULL_AUTO"
  shows "cycleCandidates tz env md i rs (withAutonomy l a) =
         withAutonomy l (cycleCandidates tz env md i rs a)"
  using assms(1)
proof (induction rs arbitrary: i a)
  case Nil
  then show ?case by simp
next
  case (Cons r rs)
  have c: "autonomyLevel (config (snd (executeDecision r (cyc_decisionEnv env i) a))) \<noteq> FULL_AUTO"
    using Cons.prems by simp
  show ?case
    using Cons.IH[OF Cons.prems] Cons.IH[OF c]
    by (simp add: meetsExecutionCriteria_withAutonomy executeDecision_withAutonomy[OF Cons.prems assms(2)])
qed

lemma checkRiskLimits_withAutonomy:
  assumes "autonomyLevel (config a) \<noteq> FULL_AUTO" "l \<noteq> FULL_AUTO"
  shows "checkRiskLimits env an (withAutonomy l a) = withAutonomy l (checkRiskLimits env an a)"
  using assms by (simp add: checkRiskLimits_def Let_def addAlert_withAutonomy)

lemma executionCycle_withAutonomy:
  assumes "autonomyLevel (config a) \<noteq> FULL_AUTO" "l \<noteq> FULL_AUTO"
  shows "executionCycle tz env (withAutonomy l a) = withAutonomy l (executionCycle tz env a)"
proof -
  have u: "\<And>md. autonomyLevel (config (updatePortfolioValues md a)) \<noteq> FULL_AUTO"
    using assms(1) by simp
  have c: "\<And>md i rs. autonomyLevel (config (cycleCandidates tz env md i rs (updatePortfolioValues md a))) \<noteq> FULL_AUTO"
    using assms(1) by simp
  show ?thesis
    by (simp add: executionCycle_def Let_def updatePortfolioValues_withAutonomy
        cycleCandidates_withAutonomy[OF u assms(2)] checkRiskLimits_withAutonomy[OF c assms(2)]
        cycleFailed_withAutonomy split: sum.splits)
qed

text \<open>
  C1. An agent built with autonomy level ADVISORY_ONLY, after any operations that
  leave the autonomy level as it is: \<open>shouldAutoExecute\<close> is false for every decision,
  every decision in its history is PENDING and carries no execution details, and the
  decision the next \<open>executeDecision\<close> returns is PENDING, never APPROVED, COMPLETED
  or FAILED.
\<close>

theorem advisory_only_never_executes:
  assumes adv: "autonomyLevel cfg = ADVISORY_ONLY"
      and ops: "list_all keepsAutonomy ops"
  shows "\<not> shouldAutoExecute cfg d
       \<and> list_all (\<lambda>d. status d = PENDING \<and> executionDetails d = None)
            (decisionHistory (run ops (newAgent cfg portfolio now)))
       \<and> status (fst (executeDecision r env (run ops (newAgent cfg portfolio now)))) = PENDING
       \<and> executionDetails (fst (executeDecision r env (run ops (newAgent cfg portfolio now)))) = None"
proof -
  let ?a0 = "newAgent cfg portfolio now"
  have c0: "autonomyLevel (config ?a0) \<noteq> FULL_AUTO"
    using adv by (simp add: newAgent_def)
  have h0: "list_all unexecuted (decisionHistory ?a0)"
    by (simp add: newAgent_def)
  have 1: "\<not> shouldAutoExecute cfg d"
    using adv by (simp add: shouldAutoExecute_def)
  have 2: "list_all unexecuted (decisionHistory (run ops ?a0))"
    using c0 ops h0 by (rule unexecuted_run)
  have c: "autonomyLevel (config (run ops ?a0)) \<noteq> FULL_AUTO"
    using c0 autonomy_run[OF ops, of ?a0] by simp
  show ?thesis
    using 1 2 executeDecision_not_full_auto[OF c, of r env]
    by (simp add: unexecuted_def[abs_def])
qed

theorem advisory_only_never_executes_witness:
  "autonomyLevel advisory_config = ADVISORY_ONLY
   \<and> \<not> shouldAutoExecute advisory_config
         (fst (executeDecision two_sales morning_env (fresh_agent full_auto_config)))
   \<and> list_all keepsAutonomy
       [OpStart 1, OpExecutionCycle 0 quiet_cycle, OpExecuteDecision two_sales morning_env]
   \<and> list_all (\<lambda>d. status d = PENDING \<and> executionDetails d = None)
       (decisionHistory
          (run [OpStart 1, OpExecutionCycle 0 quiet_cycle, OpExecuteDecision two_sales morning_env]
             (newAgent advisory_config small_portfolio 0)))"
proof -
  have h: "autonomyLevel advisory_config = ADVISORY_ONLY" by (simp add: advisory_config_def)
  have k: "list_all keepsAutonomy
      [OpStart 1, OpExecutionCycle 0 quiet_cycle, OpExecuteDecision two_sales morning_env]"
    by simp
  show ?thesis
    using h k advisory_only_never_executes[OF h k,
        of "fst (executeDecision two_sales morning_env (fresh_agent full_auto_config))"
           small_portfolio 0 two_sales morning_env]
    by blast
qed

text \<open>
  C10. For an agent whose autonomy level is SEMI_AUTO, \<open>shouldAutoExecute\<close> is false for
  every decision, whatever its priority and confidence; \<open>executeDecision\<close> returns a
  PENDING decision without execution details; and both \<open>executeDecision\<close> and a whole
  execution cycle do to the agent exactly what they do to the same agent under
  ADVISORY_ONLY.
\<close>

theorem semi_auto_never_executes:
  assumes semi: "autonomyLevel (config a) = SEMI_AUTO"
  shows "\<not> shouldAutoExecute (config a) d
       \<and> status (fst (executeDecision r env a)) = PENDING
       \<and> executionDetails (fst (executeDecision r env a)) = None
       \<and> executeDecision r env (withAutonomy ADVISORY_ONLY a) =
           (fst (executeDecision r env a), withAutonomy ADVISORY_ONLY (snd (executeDecision r env a)))
       \<and> executionCycle tz cenv (withAutonomy ADVISORY_ONLY a) =
           withAutonomy ADVISORY_ONLY (executionCycle tz cenv a)"
proof -
  have n: "autonomyLevel (config a) \<noteq> FULL_AUTO" using semi by simp
  have 1: "\<not> shouldAutoExecute (config a) d"
    using n shouldAutoExecute_FULL_AUTO_only by blast
  show ?thesis
    using 1 executeDecision_not_full_auto[OF n, of r env]
      executeDecision_withAutonomy[OF n, of ADVISORY_ONLY r env]
      executionCycle_withAutonomy[OF n, of ADVISORY_ONLY tz cenv]
    by simp
qed

theorem semi_auto_never_executes_witness:
  "autonomyLevel (config (fresh_agent semi_auto_config)) = SEMI_AUTO
   \<and> \<not> shouldAutoExecute (config (fresh_agent semi_auto_config))
         (fst (executeDecision two_sales morning_env (fresh_agent full_auto_config)))
   \<and> status (fst (executeDecision two_sales morning_env (fresh_agent semi_auto_config))) = PENDING
   \<and> executionDetails (fst (executeDecision two_sales morning_env (fresh_agent semi_auto_config))) = None"
proof -
  have h: "autonomyLevel (config (fresh_agent semi_auto_config)) = SEMI_AUTO"
    by (simp add: fresh_agent_def newAgent_def semi_auto_config_def)
  show ?thesis
    using h semi_auto_never_executes[OF h,
        of "fst (executeDecision two_sales morning_env (fresh_agent full_auto_config))"
           two_sales morning_env 0 quiet_cycle]
    by blast
qed

section \<open>The decision history\<close>



section \<open>The life cycle\<close>




section \<open>The trading-limit gate\<close>

lemma isWithinTradingLimits_iff:
  "isWithinTradingLimits tz now a \<longleftrightarrow>
     real (length (getTodayTrades tz now a)) < maxTradesPerHour (tradingLimits (config a)) * 24 \<and>
     real (length (getHourlyTrades now a)) < maxTradesPerHour (tradingLimits (config a))"
  by (simp add: isWithinTradingLimits_def Let_def)

lemma meetsExecutionCriteria_limits:
  "meetsExecutionCriteria tz now r md a \<Longrightarrow> isWithinTradingLimits tz now a"
  by (simp add: meetsExecutionCriteria_def split: if_splits)

text \<open>
  C6 (amended). The gate lets a candidate through only when the trades recorded on the
  decisions of the last 60 minutes number fewer than \<open>maxTradesPerHour\<close> and the
  trades recorded on today's decisions number fewer than 24 times \<open>maxTradesPerHour\<close>.
  When either count has reached its bound the gate fails and the cycle skips the
  candidate: nothing is executed or recorded for it. The verdict on the trading
  limits reads no other limit of the configuration: changing \<open>maxDailyTradeVolume\<close>
  and \<open>maxSingleTradeSize\<close> leaves it as it is.
\<close>

theorem trading_limits_gate:
  "(meetsExecutionCriteria tz now r md a \<longrightarrow>
        real (length (getHourlyTrades now a)) < maxTradesPerHour (tradingLimits (config a))
      \<and> real (length (getTodayTrades tz now a)) < maxTradesPerHour (tradingLimits (config a)) * 24)
   \<and> (maxTradesPerHour (tradingLimits (config a)) \<le> real (length (getHourlyTrades (cyc_gateTime env i) a))
      \<or> maxTradesPerHour (tradingLimits (config a)) * 24
           \<le> real (length (getTodayTrades tz (cyc_gateTime env i) a)) \<longrightarrow>
        \<not> meetsExecutionCriteria tz (cyc_gateTime env i) r md a
      \<and> cycleCandidates tz env md i [r] a = a)
   \<and> isWithinTradingLimits tz now
        (a\<lparr> config := (config a)\<lparr> tradingLimits :=
              (tradingLimits (config a))\<lparr> maxDailyTradeVolume := v, maxSingleTradeSize := w \<rparr> \<rparr> \<rparr>)
      = isWithinTradingLimits tz now a"
proof -
  have 1: "meetsExecutionCriteria tz now r md a \<longrightarrow>
        real (length (getHourlyTrades now a)) < maxTradesPerHour (tradingLimits (config a))
      \<and> real (length (getTodayTrades tz now a)) < maxTradesPerHour (tradingLimits (config a)) * 24"
    using meetsExecutionCriteria_limits[of tz now r md a] by (auto simp: isWithinTradingLimits_iff)
  have 2: "maxTradesPerHour (tradingLimits (config a)) \<le> real (length (getHourlyTrades (cyc_gateTime env i) a))
      \<or> maxTradesPerHour (tradingLimits (config a)) * 24
           \<le> real (length (getTodayTrades tz (cyc_gateTime env i) a)) \<longrightarrow>
        \<not> meetsExecutionCriteria tz (cyc_gateTime env i) r md a
      \<and> cycleCandidates tz env md i [r] a = a"
  proof
    assume h: "maxTradesPerHour (tradingLimits (config a)) \<le> real (length (getHourlyTrades (cyc_gateTime env i) a))
      \<or> maxTradesPerHour (tradingLimits (config a)) * 24
           \<le> real (length (getTodayTrades tz (cyc_gateTime env i) a))"
    then have "\<not> isWithinTradingLimits tz (cyc_gateTime env i) a"
      by (auto simp: isWithinTradingLimits_iff)
    then have n: "\<not> meetsExecutionCriteria tz (cyc_gateTime env i) r md a"
      using meetsExecutionCriteria_limits by blast
    then show "\<not> meetsExecutionCriteria tz (cyc_gateTime env i) r md a
      \<and> cycleCandidates tz env md i [r] a = a" by simp
  qed
  have 3: "isWithinTradingLimits tz now
        (a\<lparr> config := (config a)\<lparr> tradingLimits :=
              (tradingLimits (config a))\<lparr> maxDailyTradeVolume := v, maxSingleTradeSize := w \<rparr> \<rparr> \<rparr>)
      = isWithinTradingLimits tz now a"
    by (simp add: isWithinTradingLimits_def getTodayTrades_def getHourlyTrades_def Let_def)
  show ?thesis using 1 2 3 by blast
qed

lemmas traded_agent_defs = traded_agent_def fresh_agent_def full_auto_config_def office_hours_def
  small_portfolio_def two_sales_def sell_item_def treasury_note_def single_share_def morning_env_def
  succeeding_env_def

lemmas decision_defs = executeDecision_def newAgent_def Let_def
    shouldAutoExecute_def calculateConfidence_def mapRecommendationToDecisionType_def truthy_def orElse_def
    executeRecommendation_def calculateTradeQuantity_def getTodayTrades_def getHourlyTrades_def tradesOf_def
    toDateString_def

lemma traded_agent_noon:
  "length (getTodayTrades 0 43200000 traded_agent) = 2 \<and> getHourlyTrades 43200000 traded_agent = []"
  by (simp add: traded_agent_defs executor_defs decision_defs)

lemma traded_agent_morning:
  "length (getHourlyTrades 36000000 traded_agent) = 2"
  by (simp add: traded_agent_defs executor_defs decision_defs)

lemma traded_agent_limits:
  "tradingLimits (config traded_agent) =
     \<lparr> maxDailyTradeVolume = 1, maxSingleTradeSize = 1, maxTradesPerHour = 1, tradingHours = office_hours \<rparr>"
  by (simp add: traded_agent_def fresh_agent_def newAgent_def full_auto_config_def)

theorem trading_limits_gate_witness:
  "maxTradesPerHour (tradingLimits (config traded_agent)) \<le> real (length (getHourlyTrades 36000000 traded_agent))
   \<and> \<not> meetsExecutionCriteria 0 36000000 two_sales calm_market traded_agent
   \<and> cycleCandidates 0 quiet_cycle calm_market 0 [two_sales] traded_agent = traded_agent"
proof -
  have g: "cyc_gateTime quiet_cycle 0 = 36000000" by (simp add: quiet_cycle_def)
  have h: "maxTradesPerHour (tradingLimits (config traded_agent))
       \<le> real (length (getHourlyTrades 36000000 traded_agent))"
    by (simp add: traded_agent_limits traded_agent_morning)
  show ?thesis
    using h trading_limits_gate[of 0 36000000 two_sales calm_market traded_agent quiet_cycle 0 0 0]
    by (simp add: g)
qed

text \<open>
  C6 as stated fails: every limit the configuration holds is 1 (the daily trade
  volume, the single trade size and the trades per hour), two trades were executed
  today, more than an hour ago, and the gate lets the next candidate through. The
  daily bound it applies is 24, derived from the hourly limit.
\<close>

theorem daily_limit_not_enforced_counterexample:
  "maxDailyTradeVolume (tradingLimits (config traded_agent)) = 1
   \<and> maxSingleTradeSize (tradingLimits (config traded_agent)) = 1
   \<and> maxTradesPerHour (tradingLimits (config traded_agent)) = 1
   \<and> length (getTodayTrades 0 43200000 traded_agent) = 2
   \<and> length (getHourlyTrades 43200000 traded_agent) = 0
   \<and> isWithinTradingLimits 0 43200000 traded_agent
   \<and> meetsExecutionCriteria 0 43200000 two_sales calm_market traded_agent"
  by (simp add: traded_agent_limits traded_agent_noon isWithinTradingLimits_iff meetsExecutionCriteria_def
      isWithinTradingHours_def passesRiskChecks_def passesMarketConditionChecks_def calm_market_def
      office_hours_def getHours_def Let_def)

section \<open>Emergency shutdown\<close>

lemma stopAgents_keys: "map fst (fst (stopAgents sm xs)) = map fst xs"
  by (induction xs) (auto split: prod.splits option.splits)

lemma stopAgents_agents: "map snd (fst (stopAgents sm xs)) = map (\<lambda>entry. fst (sm (snd entry))) xs"
  by (induction xs) (auto split: prod.splits option.splits)

lemma stopAgents_lines:
  "map stopLineAgent (snd (stopAgents sm xs)) = map (\<lambda>entry. Some (fst entry)) xs"
  by (induction xs) (auto split: prod.splits option.splits)

lemma stop_stops: "agent_status (state (stop now a)) = STOPPED \<and> intervalId (stop now a) = None"
  by (simp add: stop_def Let_def split: option.splits)

lemma stopAgents_agentStop:
  "list_all (\<lambda>entry. agent_status (state (snd entry)) = STOPPED \<and> intervalId (snd entry) = None)
     (fst (stopAgents (agentStop t) xs))"
  by (induction xs) (auto simp: agentStop_def stop_stops split: prod.splits option.splits)

lemma shutdownToAwait_active:
  "emergencyShutdownActive m \<Longrightarrow> shutdownToAwait sm reason now m = None"
  by (simp add: shutdownToAwait_def)

lemma emergencyShutdown_active:
  "emergencyShutdownActive m \<Longrightarrow> emergencyShutdown sm reason now m = m"
  by (simp add: emergencyShutdown_def shutdownToAwait_active)

lemma shutdownToAwait_inactive:
  assumes "\<not> emergencyShutdownActive m"
  shows "shutdownToAwait sm reason now m =
     Some (m\<lparr> emergencyShutdownActive := True,
              agents := fst (stopAgents sm (agents m)),
              console := console m @ [EmergencyShutdownInitiated reason] @
                snd (stopAgents sm (agents m)) @ [EmergencyNotification reason now] @
                map Notifying (emergencyContacts (monitor_config m)) \<rparr>)"
  using assms
  by (simp add: shutdownToAwait_def sendEmergencyNotification_def Let_def split: prod.splits)

lemma emergencyShutdown_inactive:
  assumes "\<not> emergencyShutdownActive m"
  shows "emergencyShutdown sm reason now m =
     m\<lparr> emergencyShutdownActive := True,
        agents := fst (stopAgents sm (agents m)),
        monitor_intervalId := None,
        monitor_timers := (case monitor_intervalId m of
                             Some h \<Rightarrow> removeAll h (monitor_timers m)
                           | None \<Rightarrow> monitor_timers m),
        console := console m @ [EmergencyShutdownInitiated reason] @
          snd (stopAgents sm (agents m)) @ [EmergencyNotification reason now] @
          map Notifying (emergencyContacts (monitor_config m)) @ [MonitoringStopped] \<rparr>"
  by (cases "monitor_intervalId m")
     (simp_all add: emergencyShutdown_def shutdownToAwait_inactive[OF assms] shutdownAfterAwait_def
        stopMonitoring_def Let_def)

text \<open>
  C2. On a monitor with no shutdown active, \<open>emergencyShutdown\<close> sets the flag; calls the
  stop method on every registered agent, in registration order, whether or not the
  call on an earlier agent threw (with the agent's own \<open>stop\<close>, every agent ends
  STOPPED with its timer cleared); writes one console line per agent, then the
  notification and one line per configured emergency contact, exactly once; and
  clears the monitor's own interval. A second call is a no-op, both after the first
  has finished and at the point where the first is suspended on its \<open>await\<close>.
\<close>

theorem emergency_shutdown_idempotent_best_effort:
  assumes idle: "\<not> emergencyShutdownActive m"
  shows "emergencyShutdownActive (emergencyShutdown sm reason now m)
       \<and> map fst (agents (emergencyShutdown sm reason now m)) = map fst (agents m)
       \<and> map snd (agents (emergencyShutdown sm reason now m)) =
           map (\<lambda>entry. fst (sm (snd entry))) (agents m)
       \<and> map stopLineAgent (snd (stopAgents sm (agents m))) =
           map (\<lambda>entry. Some (fst entry)) (agents m)
       \<and> list_all (\<lambda>entry. agent_status (state (snd entry)) = STOPPED \<and> intervalId (snd entry) = None)
           (agents (emergencyShutdown (agentStop t) reason now m))
       \<and> console (emergencyShutdown sm reason now m) =
           console m @ [EmergencyShutdownInitiated reason] @ snd (stopAgents sm (agents m)) @
           [EmergencyNotification reason now] @
           map Notifying (emergencyContacts (monitor_config m)) @ [MonitoringStopped]
       \<and> monitor_intervalId (emergencyShutdown sm reason now m) = None
       \<and> monitor_timers (emergencyShutdown sm reason now m) =
           (case monitor_intervalId m of
              Some h \<Rightarrow> removeAll h (monitor_timers m)
            | None \<Rightarrow> monitor_timers m)
       \<and> emergencyShutdown sm' reason' now' (emergencyShutdown sm reason now m) =
           emergencyShutdown sm reason now m
       \<and> (case shutdownToAwait sm reason now m of
            Some m' \<Rightarrow> shutdownToAwait sm' reason' now' m' = None
                      \<and> emergencyShutdown sm' reason' now' m' = m'
          | None \<Rightarrow> False)"
proof -
  note e = emergencyShutdown_inactive[OF idle]
  have act: "emergencyShutdownActive (emergencyShutdown sm reason now m)" by (simp add: e)
  have again: "emergencyShutdown sm' reason' now' (emergencyShutdown sm reason now m) =
           emergencyShutdown sm reason now m"
    using act by (rule emergencyShutdown_active)
  have mid: "(case shutdownToAwait sm reason now m of
            Some m' \<Rightarrow> shutdownToAwait sm' reason' now' m' = None
                      \<and> emergencyShutdown sm' reason' now' m' = m'
          | None \<Rightarrow> False)"
    by (simp add: shutdownToAwait_inactive[OF idle] shutdownToAwait_active emergencyShutdown_active)
  have stopped: "list_all (\<lambda>entry. agent_status (state (snd entry)) = STOPPED \<and> intervalId (snd entry) = None)
           (agents (emergencyShutdown (agentStop t) reason now m))"
    using stopAgents_agentStop[of t "agents m"] by (simp add: emergencyShutdown_inactive[OF idle])
  show ?thesis
    using act again mid stopped
    by (simp add: e stopAgents_keys stopAgents_agents stopAgents_lines)
qed

lemma watched_monitor_agents:
  "map fst (agents watched_monitor) = [''agent-1'', ''agent-2'']
   \<and> map (\<lambda>entry. agent_status (state (snd entry))) (agents watched_monitor) = [ACTIVE, ACTIVE]
   \<and> \<not> emergencyShutdownActive watched_monitor
   \<and> emergencyContacts (monitor_config watched_monitor) = [''risk@desk'', ''ops@desk'']
   \<and> console watched_monitor = [AgentRegistered ''agent-1'', AgentRegistered ''agent-2'', MonitoringStarted]"
  by (simp add: watched_monitor_def startMonitoring_def registerAgent_def newMonitor_def getState_def
      start_def fresh_agent_def newAgent_def addAlert_def second_config_def full_auto_config_def Let_def)

theorem emergency_shutdown_idempotent_best_effort_witness:
  "\<not> emergencyShutdownActive watched_monitor
   \<and> map fst (agents (emergencyShutdown failingStop ''drawdown'' 50000000 watched_monitor)) =
       [''agent-1'', ''agent-2'']
   \<and> map (\<lambda>a. agent_status (state a))
       (map snd (agents (emergencyShutdown failingStop ''drawdown'' 50000000 watched_monitor))) =
       [ACTIVE, STOPPED]
   \<and> console (emergencyShutdown failingStop ''drawdown'' 50000000 watched_monitor) =
       [AgentRegistered ''agent-1'', AgentRegistered ''agent-2'', MonitoringStarted,
        EmergencyShutdownInitiated ''drawdown'',
        FailedToStopAgent ''agent-1'' ''timer table corrupted'', AgentStopped ''agent-2'',
        EmergencyNotification ''drawdown'' 50000000,
        Notifying ''risk@desk'', Notifying ''ops@desk'', MonitoringStopped]
   \<and> monitor_intervalId (emergencyShutdown failingStop ''drawdown'' 50000000 watched_monitor) = None
   \<and> emergencyShutdown failingStop ''again'' 50000001
        (emergencyShutdown failingStop ''drawdown'' 50000000 watched_monitor) =
       emergencyShutdown failingStop ''drawdown'' 50000000 watched_monitor"
proof -
  have idle: "\<not> emergencyShutdownActive watched_monitor"
    by (simp add: watched_monitor_agents)
  have ags: "agents watched_monitor =
      [(''agent-1'', start 1 (fresh_agent full_auto_config)),
       (''agent-2'', start 2 (fresh_agent second_config))]"
    by (simp add: watched_monitor_def startMonitoring_def registerAgent_def newMonitor_def getState_def
      start_def fresh_agent_def newAgent_def addAlert_def second_config_def full_auto_config_def Let_def)
  have ids: "state_id (state (start 1 (fresh_agent full_auto_config))) = ''agent-1''"
    "state_id (state (start 2 (fresh_agent second_config))) = ''agent-2''"
    by (simp_all add: start_def fresh_agent_def newAgent_def addAlert_def second_config_def
        full_auto_config_def Let_def)
  have st: "stopAgents failingStop (agents watched_monitor) =
      ([(''agent-1'', start 1 (fresh_agent full_auto_config)),
        (''agent-2'', stop 50000000 (start 2 (fresh_agent second_config)))],
       [FailedToStopAgent ''agent-1'' ''timer table corrupted'', AgentStopped ''agent-2''])"
    by (simp add: ags failingStop_def ids)
  have f: "map (\<lambda>entry. fst (failingStop (snd entry))) (agents watched_monitor) =
      [start 1 (fresh_agent full_auto_config), stop 50000000 (start 2 (fresh_agent second_config))]"
    by (simp add: ags failingStop_def ids)
  have a1: "agent_status (state (start 1 (fresh_agent full_auto_config))) = ACTIVE"
    by (simp add: start_def fresh_agent_def newAgent_def full_auto_config_def Let_def)
  show ?thesis
    using idle emergency_shutdown_idempotent_best_effort[OF idle,
        of failingStop "''drawdown''" 50000000 0 failingStop "''again''" 50000001]
    by (simp add: st f a1 stop_stops watched_monitor_agents)
qed

section \<open>What the result of getState shares with the agent\<close>

lemma readState_cong:
  assumes "stateObjects h2 r2 = stateObjects h1 r1"
      and "portfolioObjects h2 = portfolioObjects h1" "assetArrays h2 = assetArrays h1"
      and "alertArrays h2 = alertArrays h1" "alertObjects h2 = alertObjects h1"
      and "performanceObjects h2 = performanceObjects h1"
  shows "readState h2 r2 = readState h1 r1"
  by (simp only: readState_def assms)

lemma updateStateObject_frame:
  "portfolioObjects (updateStateObject r f h) = portfolioObjects h"
  "assetArrays (updateStateObject r f h) = assetArrays h"
  "alertArrays (updateStateObject r f h) = alertArrays h"
  "alertObjects (updateStateObject r f h) = alertObjects h"
  "performanceObjects (updateStateObject r f h) = performanceObjects h"
  "r' \<noteq> r \<Longrightarrow> stateObjects (updateStateObject r f h) r' = stateObjects h r'"
  by (simp_all add: updateStateObject_def split: option.splits)

lemma mutate_assignsField_frame:
  assumes "assignsField mu"
  shows "portfolioObjects (mutate mu r h) = portfolioObjects h"
    and "assetArrays (mutate mu r h) = assetArrays h"
    and "alertArrays (mutate mu r h) = alertArrays h"
    and "alertObjects (mutate mu r h) = alertObjects h"
    and "performanceObjects (mutate mu r h) = performanceObjects h"
    and "r' \<noteq> r \<Longrightarrow> stateObjects (mutate mu r h) r' = stateObjects h r'"
  using assms by (cases mu; simp add: updateStateObject_frame)+

text \<open>
  C4 (amended). \<open>getState\<close> returns a new object that holds the same state value as the
  agent's state object. Assigning to a field of the returned object does not change
  the state value the agent holds. The returned object refers to the agent's own
  portfolio, watchlist, alerts array and performance object, which are not copied.
\<close>

theorem getState_shallow_copy:
  assumes get: "heapGetState h agent = Some (snapshot, h')"
      and fresh: "stateObjects h (nextRef h) = None"
  shows "snapshot \<noteq> agent
       \<and> stateObjects h' snapshot = stateObjects h agent
       \<and> readState h' snapshot = readState h agent
       \<and> readState h' agent = readState h agent
       \<and> (assignsField mu \<longrightarrow> readState (mutate mu snapshot h') agent = readState h agent)"
proof -
  obtain obj where obj: "stateObjects h agent = Some obj"
    using get by (auto simp: heapGetState_def split: option.splits)
  have snap: "snapshot = nextRef h"
    and h': "h' = h\<lparr> stateObjects := (stateObjects h)(nextRef h \<mapsto> obj), nextRef := Suc (nextRef h) \<rparr>"
    using get obj by (auto simp add: heapGetState_def)
  have ne: "snapshot \<noteq> agent" using obj fresh snap by auto
  have ne': "agent \<noteq> snapshot" using ne by simp
  have 1: "stateObjects h' snapshot = stateObjects h agent" by (simp add: h' snap obj)
  have 2: "readState h' snapshot = readState h agent"
    by (rule readState_cong) (simp_all add: h' snap obj)
  have 3: "readState h' agent = readState h agent"
    using ne by (intro readState_cong) (simp_all add: h' snap)
  have 4: "assignsField mu \<longrightarrow> readState (mutate mu snapshot h') agent = readState h agent"
  proof
    assume a: "assignsField mu"
    have "readState (mutate mu snapshot h') agent = readState h' agent"
      by (rule readState_cong) (simp_all add: mutate_assignsField_frame[OF a] ne')
    then show "readState (mutate mu snapshot h') agent = readState h agent" using 3 by simp
  qed
  show ?thesis using ne 1 2 3 4 by blast
qed

lemma decimal_1: "decimal 1 = ''1''"
  by code_simp

lemmas alerted_heap_defs = alerted_heap_def storeState_def emptyHeap_def start_def fresh_agent_def
  newAgent_def disabled_config_def full_auto_config_def addAlert_def Let_def decimal_1

theorem getState_shallow_copy_witness:
  "(case heapGetState (snd alerted_heap) (fst alerted_heap) of
      Some (snapshot, h') \<Rightarrow>
        snapshot \<noteq> fst alerted_heap
      \<and> readState h' snapshot = readState (snd alerted_heap) (fst alerted_heap)
      \<and> readState (mutate (AssignStatus ACTIVE) snapshot h') (fst alerted_heap)
          = readState (snd alerted_heap) (fst alerted_heap)
      \<and> map_option agent_status (readState (mutate (AssignStatus ACTIVE) snapshot h') snapshot)
          = Some ACTIVE
      \<and> map_option agent_status (readState (mutate (AssignStatus ACTIVE) snapshot h') (fst alerted_heap))
          = Some STOPPED
    | None \<Rightarrow> False)"
proof -
  obtain snapshot h' where g: "heapGetState (snd alerted_heap) (fst alerted_heap) = Some (snapshot, h')"
    by (simp add: alerted_heap_defs heapGetState_def)
  have fresh: "stateObjects (snd alerted_heap) (nextRef (snd alerted_heap)) = None"
    by (simp add: alerted_heap_defs)
  have a: "assignsField (AssignStatus ACTIVE)" by simp
  have v: "map_option agent_status (readState (mutate (AssignStatus ACTIVE) snapshot h') snapshot)
          = Some ACTIVE"
    using g by (auto simp add: alerted_heap_defs heapGetState_def readState_def updateStateObject_def)
  have w: "map_option agent_status (readState (snd alerted_heap) (fst alerted_heap)) = Some STOPPED"
    by (simp add: alerted_heap_defs readState_def)
  show ?thesis
    using getState_shallow_copy[OF g fresh, of "AssignStatus ACTIVE"] a v w
    by (simp add: g)
qed

text \<open>
  C4 as stated fails: setting \<open>acknowledged\<close> on the first alert reached through
  the returned object sets it on the agent's own alert, and
  \<open>AgentMonitor.acknowledgeAlert\<close> acknowledges the agent's alert in exactly this way.
\<close>

theorem getState_shares_alerts_counterexample:
  "(case heapGetState (snd alerted_heap) (fst alerted_heap) of
      Some (snapshot, h') \<Rightarrow>
        snapshot \<noteq> fst alerted_heap
      \<and> map_option (\<lambda>s. map acknowledged (alerts s)) (readState h' (fst alerted_heap)) = Some [False]
      \<and> map_option (\<lambda>s. map acknowledged (alerts s))
          (readState (mutate (SetAcknowledged 0 True) snapshot h') (fst alerted_heap)) = Some [True]
    | None \<Rightarrow> False)
   \<and> map_option (\<lambda>s. map acknowledged (alerts s)) (readState (snd alerted_heap) (fst alerted_heap))
       = Some [False]
   \<and> fst (acknowledgeAlert [(''agent-1'', fst alerted_heap)] ''agent-1'' ''alert-1'' (snd alerted_heap))
   \<and> map_option (\<lambda>s. map acknowledged (alerts s))
       (readState (snd (acknowledgeAlert [(''agent-1'', fst alerted_heap)] ''agent-1'' ''alert-1''
                          (snd alerted_heap))) (fst alerted_heap)) = Some [True]"
  by (simp add: alerted_heap_defs heapGetState_def readState_def acknowledgeAlert_def
      updateAlertObject_def)

end
